theory Spec2Isabelle
  imports Complex_Main "HOL-Library.Multiset" "HOL-Library.AList" "HOL-Library.Char_ord"
    "HOL-Library.List_Lexorder"
begin

chapter \<open>The model\<close>

section \<open>Numbers, emotions and emotion distributions\<close>

text \<open>
  The source computes with JavaScript numbers, which are IEEE 754 doubles. They are modelled
  as real numbers, and NaN and the infinities are outside the model. Two places follow the
  doubles more closely, because there the outcome of the source differs in kind from that
  of exact arithmetic: \<open>calculateTensionIndex\<close> rounds every intermediate result to a
  double (its last step, \<open>Math.round\<close>, turns a rounding error into a different integer),
  and \<open>Math.exp\<close> in \<open>recencyWeight\<close> underflows to 0. Everywhere else the operations are
  exact. Where the source could divide by zero the model says so explicitly (see
  \<open>cosineSimilarity\<close>).
\<close>

datatype Emotion =
  Anger | Anxiety | Sadness | Resilience | Hope | Excitement | Cynicism | Neutral

type_synonym EmotionDistribution = "Emotion \<Rightarrow> real"

definition EMOTIONS :: "Emotion list" where
  "EMOTIONS = [Anger, Anxiety, Sadness, Resilience, Hope, Excitement, Cynicism, Neutral]"

text \<open>\<open>createEmptyDistribution\<close>: every emotion of \<open>EMOTIONS\<close> is set to 0.\<close>

definition createEmptyDistribution :: EmotionDistribution where
  "createEmptyDistribution = fold (\<lambda>emotion d. d(emotion := 0)) EMOTIONS (\<lambda>_. 0)"

text \<open>\<open>Object.values(dist).reduce((a, b) => a + b, 0)\<close>, the keys in insertion order.\<close>

definition sumValues :: "EmotionDistribution \<Rightarrow> real" where
  "sumValues d = fold (\<lambda>emotion a. a + d emotion) EMOTIONS 0"

definition normalizeDistribution :: "EmotionDistribution \<Rightarrow> EmotionDistribution" where
  "normalizeDistribution d =
     (let total = sumValues d in
      if total = 0 then createEmptyDistribution(Neutral := 1)
      else fold (\<lambda>emotion normalized. normalized(emotion := d emotion / total))
             EMOTIONS createEmptyDistribution)"

section \<open>Strings\<close>

text \<open>
  Strings are lists of 8-bit characters and the model covers ASCII text:
  \<open>toLowerCase\<close> maps \<open>A\<close>..\<open>Z\<close> to \<open>a\<close>..\<open>z\<close> and leaves every other character alone.
\<close>

definition lowerChar :: "char \<Rightarrow> char" where
  "lowerChar c =
     (case map_of (zip ''ABCDEFGHIJKLMNOPQRSTUVWXYZ'' ''abcdefghijklmnopqrstuvwxyz'') c of
        None \<Rightarrow> c
      | Some l \<Rightarrow> l)"

definition toLowerCase :: "string \<Rightarrow> string" where
  "toLowerCase s = map lowerChar s"

fun startsWith :: "string \<Rightarrow> string \<Rightarrow> bool" where
  "startsWith s [] = True"
| "startsWith [] (k # ks) = False"
| "startsWith (c # cs) (k # ks) = (c = k \<and> startsWith cs ks)"

text \<open>\<open>s.includes(k)\<close>: \<open>k\<close> occurs in \<open>s\<close> as a contiguous substring.\<close>

fun includesStr :: "string \<Rightarrow> string \<Rightarrow> bool" where
  "includesStr [] k = (k = [])"
| "includesStr (c # cs) k = (startsWith (c # cs) k \<or> includesStr cs k)"

text \<open>
  The character classes of the regular expressions, on ASCII: \<open>\p{L}\<close> are the letters,
  \<open>\p{N}\<close> the digits, \<open>\s\<close> is tab, line feed, vertical tab, form feed, carriage return
  and space.
\<close>

definition isLetter :: "char \<Rightarrow> bool" where
  "isLetter c \<longleftrightarrow> c \<in> set ''abcdefghijklmnopqrstuvwxyzABCDEFGHIJKLMNOPQRSTUVWXYZ''"

definition isDigit :: "char \<Rightarrow> bool" where
  "isDigit c \<longleftrightarrow> c \<in> set ''0123456789''"

definition isSpace :: "char \<Rightarrow> bool" where
  "isSpace c \<longleftrightarrow> c \<in> set [CHR 0x09, CHR 0x0A, CHR 0x0B, CHR 0x0C, CHR 0x0D, CHR '' '']"

definition upperChar :: "char \<Rightarrow> char" where
  "upperChar c =
     (case map_of (zip ''abcdefghijklmnopqrstuvwxyz'' ''ABCDEFGHIJKLMNOPQRSTUVWXYZ'') c of
        None \<Rightarrow> c
      | Some u \<Rightarrow> u)"

text \<open>Cutting a string at every character that satisfies \<open>P\<close>; the result is never empty.\<close>

fun splitOn :: "(char \<Rightarrow> bool) \<Rightarrow> string \<Rightarrow> string list" where
  "splitOn P [] = [[]]"
| "splitOn P (c # cs) =
     (if P c then [] # splitOn P cs
      else (case splitOn P cs of [] \<Rightarrow> [[c]] | w # ws \<Rightarrow> (c # w) # ws))"

text \<open>
  \<open>s.split(/\s+/)\<close>: the maximal runs without whitespace, with an empty string in front
  when \<open>s\<close> starts with whitespace and one at the end when it ends with whitespace; the
  empty string gives one empty string.
\<close>

definition splitWhitespace :: "string \<Rightarrow> string list" where
  "splitWhitespace s =
     (if s = [] then [[]]
      else (if isSpace (hd s) then [[]] else [])
           @ filter (\<lambda>w. w \<noteq> []) (splitOn isSpace s)
           @ (if isSpace (last s) then [[]] else []))"

text \<open>\<open>xs.join(sep)\<close>\<close>

fun joinWith :: "string \<Rightarrow> string list \<Rightarrow> string" where
  "joinWith sep [] = []"
| "joinWith sep [x] = x"
| "joinWith sep (x # y # ys) = x @ sep @ joinWith sep (y # ys)"

text \<open>
  An object used as a dictionary is the list of its entries in insertion order, with
  distinct keys. \<open>obj[k] || 0\<close> is \<open>lookupOr0\<close>, \<open>obj[k] = v\<close> is \<open>AList.update\<close> (a new key
  goes to the end, an old key keeps its place). JavaScript enumerates the keys that are
  array indices (canonical decimal numerals below 2^32 - 1) first, in ascending numeric
  order, and then the other keys in insertion order: \<open>objectEntries\<close>. Properties
  inherited from \<open>Object.prototype\<close> are not modelled: the one key that a term (lower-case
  letters and digits) can hit is \<open>constructor\<close>, for which \<open>obj[k] || 0\<close> reads the inherited
  function and the source's frequencies of that text become NaN. The model treats
  \<open>constructor\<close> as any other term, so it describes texts without that word.
\<close>

type_synonym TermFrequency = "(string \<times> real) list"

definition lookupOr0 :: "TermFrequency \<Rightarrow> string \<Rightarrow> real" where
  "lookupOr0 obj k = (case map_of obj k of None \<Rightarrow> 0 | Some v \<Rightarrow> v)"

definition indexValue :: "string \<Rightarrow> nat" where
  "indexValue s = fold (\<lambda>c n. 10 * n + (of_char c - 48)) s 0"

definition isArrayIndex :: "string \<Rightarrow> bool" where
  "isArrayIndex s \<longleftrightarrow>
     s \<noteq> [] \<and> list_all isDigit s \<and> (length s = 1 \<or> hd s \<noteq> CHR ''0'')
     \<and> indexValue s < 2 ^ 32 - 1"

definition objectEntries :: "TermFrequency \<Rightarrow> TermFrequency" where
  "objectEntries obj =
     sort_key (\<lambda>e. indexValue (fst e)) (filter (\<lambda>e. isArrayIndex (fst e)) obj)
     @ filter (\<lambda>e. \<not> isArrayIndex (fst e)) obj"

definition objectKeys :: "TermFrequency \<Rightarrow> string list" where
  "objectKeys obj = map fst (objectEntries obj)"

section \<open>Content items\<close>

datatype Source = Rss | Reddit | Hn | Telegram | Events | Search

datatype Lens = Headlines | Conversation | Weather | Tech | EventsLens

datatype Language = He | En | Ru | Other

datatype EventType =
  Concert | Theater | Sports | Festival | Protest | Exhibition | Nightlife | Community
  | OtherEvent

record Location =
  name :: string
  lat :: real
  lng :: real
  country :: "string option"
  region :: "string option"

text \<open>
  A \<open>Date\<close> is its time value, the milliseconds since the epoch. An optional field is an
  \<open>option\<close>; for \<open>duplicateOf\<close> both \<open>undefined\<close> and \<open>null\<close> are \<open>None\<close>. The fields \<open>id\<close>,
  \<open>text\<close> and \<open>context\<close> are \<open>itemId\<close>, \<open>itemText\<close> and \<open>itemContext\<close> here.
\<close>

record NormalizedItem =
  itemId :: string
  source :: Source
  lens :: Lens
  language :: Language
  title :: string
  itemText :: "string option"
  createdAt :: int
  url :: string
  engagement :: real
  itemContext :: string
  relevanceScore :: "real option"
  duplicateOf :: "string option"
  location :: "Location option"
  faviconUrl :: "string option"
  imageUrl :: "string option"
  eventType :: "EventType option"
  eventDate :: "int option"
  eventEndDate :: "int option"
  venue :: "string option"
  moodScore :: "real option"

text \<open>\<open>item.text || ''\<close>: \<open>null\<close> and the empty string both give the empty string.\<close>

definition textOrEmpty :: "NormalizedItem \<Rightarrow> string" where
  "textOrEmpty item = (case itemText item of None \<Rightarrow> [] | Some t \<Rightarrow> t)"

text \<open>The truthiness of \<open>item.duplicateOf\<close>: a non-empty string.\<close>

definition isDuplicate :: "NormalizedItem \<Rightarrow> bool" where
  "isDuplicate item = (case duplicateOf item of None \<Rightarrow> False | Some d \<Rightarrow> d \<noteq> [])"

text \<open>\<open>item.relevanceScore ?? 0.5\<close>\<close>

definition relevanceOrDefault :: "NormalizedItem \<Rightarrow> real" where
  "relevanceOrDefault item = (case relevanceScore item of None \<Rightarrow> 5 / 10 | Some r \<Rightarrow> r)"

text \<open>The template literal \<open>`${item.title} ${item.text || ''}`\<close>.\<close>

definition titleAndText :: "NormalizedItem \<Rightarrow> string" where
  "titleAndText item = title item @ '' '' @ textOrEmpty item"

section \<open>Emotion scoring\<close>

definition EMOTION_KEYWORDS :: "Emotion \<Rightarrow> string list" where
  "EMOTION_KEYWORDS emotion = (case emotion of
     Anger \<Rightarrow>
       [''angry'', ''furious'', ''outrage'', ''rage'', ''hate'', ''disgusting'', ''unacceptable'',
        ''infuriating'', ''livid'', ''enraged'', ''hostile'', ''bitter'', ''protest'', ''riot'',
        ''condemn'', ''denounce'', ''fury'', ''wrath'', ''outraged'']
   | Anxiety \<Rightarrow>
       [''worried'', ''anxious'', ''fear'', ''scared'', ''threat'', ''danger'', ''warning'',
        ''alert'', ''crisis'', ''emergency'', ''concern'', ''uncertain'', ''risk'', ''tension'',
        ''volatile'', ''unstable'', ''alarming'', ''concerning'', ''troubling'', ''nervous'']
   | Sadness \<Rightarrow>
       [''sad'', ''tragic'', ''death'', ''killed'', ''victim'', ''mourn'', ''grief'', ''loss'',
        ''devastated'', ''heartbreaking'', ''mourning'', ''sorrow'', ''painful'', ''funeral'',
        ''tragedy'', ''disaster'', ''casualties'', ''suffering'']
   | Resilience \<Rightarrow>
       [''strong'', ''resilient'', ''united'', ''together'', ''fight'', ''defend'', ''brave'',
        ''hero'', ''courage'', ''solidarity'', ''endure'', ''persevere'', ''overcome'',
        ''survive'', ''determined'', ''steadfast'', ''unwavering'']
   | Hope \<Rightarrow>
       [''hope'', ''peace'', ''progress'', ''improve'', ''better'', ''optimistic'',
        ''breakthrough'', ''promising'', ''recovery'', ''rebuild'', ''healing'', ''resolution'',
        ''agreement'', ''deal'', ''success'', ''positive'', ''growth'']
   | Excitement \<Rightarrow>
       [''exciting'', ''amazing'', ''great'', ''success'', ''win'', ''celebrate'',
        ''achievement'', ''victory'', ''triumph'', ''historic'', ''milestone'', ''breakthrough'',
        ''incredible'', ''remarkable'', ''stunning'', ''impressive'']
   | Cynicism \<Rightarrow>
       [''lol'', ''lmao'', ''yeah right'', ''sure'', ''typical'', ''surprise'', ''expected'',
        ''joke'', ''as usual'', ''nothing new'', ''of course'', ''predictable'', ''unsurprising'',
        ''ironic'', ''sarcastic'']
   | Neutral \<Rightarrow> [])"

text \<open>
  The inner loop of \<open>scoreItemEmotions\<close>: \<open>matches\<close> goes up by one for every keyword of
  the list that the text includes.
\<close>

definition countMatches :: "string \<Rightarrow> string list \<Rightarrow> nat" where
  "countMatches txt keywords =
     fold (\<lambda>keyword matches. if includesStr txt (toLowerCase keyword) then matches + 1 else matches)
       keywords 0"

text \<open>The outer loop, over \<open>EMOTIONS\<close>; its state is \<open>dist\<close> and \<open>totalMatches\<close>.\<close>

definition scoreStep :: "string \<Rightarrow> Emotion \<Rightarrow> EmotionDistribution \<times> nat \<Rightarrow> EmotionDistribution \<times> nat" where
  "scoreStep txt emotion st =
     (if emotion = Neutral then st
      else (let matches = countMatches txt (EMOTION_KEYWORDS emotion)
            in ((fst st)(emotion := real matches), snd st + matches)))"

definition scoreItemEmotions :: "NormalizedItem \<Rightarrow> EmotionDistribution" where
  "scoreItemEmotions item =
     (let txt = toLowerCase (titleAndText item);
          (d, totalMatches) = fold (scoreStep txt) EMOTIONS (createEmptyDistribution, 0)
      in if totalMatches = 0 then normalizeDistribution (d(Neutral := 1))
         else normalizeDistribution d)"

section \<open>Aggregation\<close>

text \<open>
  \<open>Math.exp\<close> returns a double. Where exp(x) is at most 2^(-1075), half the least positive
  double, that is for x at most -1075 ln 2 (about -745.13), the result is 0; above that
  bound the model keeps the exact value. An overflow (x above 709.78) is outside the model:
  \<open>recencyWeight\<close> reaches it only for an item dated more than 255 days after the clock
  reading.
\<close>

definition Math_exp :: "real \<Rightarrow> real" where
  "Math_exp x = (if x \<le> - 1075 * ln 2 then 0 else exp x)"

text \<open>
  \<open>recencyWeight\<close> reads the clock (\<open>Date.now()\<close>); the reading is the explicit argument
  \<open>now\<close>, in milliseconds like \<open>createdAt\<close>.
\<close>

definition recencyWeight :: "int \<Rightarrow> int \<Rightarrow> real \<Rightarrow> real" where
  "recencyWeight now created halfLifeHours =
     (let ageMs = now - created;
          ageHours = real_of_int ageMs / (1000 * 60 * 60)
      in Math_exp (- 0.693 * ageHours / halfLifeHours))"

definition capEngagement :: "real \<Rightarrow> real \<Rightarrow> real" where
  "capEngagement e cap = min e cap"

text \<open>
  The weight of one item, as \<open>aggregateEmotions\<close> computes it (default half life 6, cap
  1000). \<open>Math.log10\<close> is \<open>log 10\<close>; the two agree on positive arguments, which is where an
  engagement count puts \<open>engagement + 2\<close>.
\<close>

definition itemWeight :: "int \<Rightarrow> NormalizedItem \<Rightarrow> real" where
  "itemWeight now item =
     (let recency = recencyWeight now (createdAt item) 6;
          eng = capEngagement (engagement item) 1000;
          relevance = relevanceOrDefault item
      in recency * log 10 (eng + 2) * relevance)"

definition aggregateStep :: "int \<Rightarrow> NormalizedItem \<Rightarrow> EmotionDistribution \<times> real \<Rightarrow> EmotionDistribution \<times> real" where
  "aggregateStep now item st =
     (if isDuplicate item then st
      else (let itemEmotions = scoreItemEmotions item;
                weight = itemWeight now item
            in (fold (\<lambda>emotion weighted. weighted(emotion := weighted emotion + itemEmotions emotion * weight))
                  EMOTIONS (fst st),
                snd st + weight)))"

definition aggregateEmotions :: "int \<Rightarrow> NormalizedItem list \<Rightarrow> EmotionDistribution" where
  "aggregateEmotions now items =
     (if length items = 0 then normalizeDistribution createEmptyDistribution
      else (let (weighted, totalWeight) = fold (aggregateStep now) items (createEmptyDistribution, 0)
            in if totalWeight = 0 then normalizeDistribution createEmptyDistribution
               else normalizeDistribution
                      (fold (\<lambda>emotion w. w(emotion := w emotion / totalWeight)) EMOTIONS weighted)))"

section \<open>Double-precision arithmetic\<close>

text \<open>
  A sum, difference or product of two doubles is the exact result rounded to the nearest
  double, a tie going to the double with an even significand (IEEE 754 binary64, the
  arithmetic of JavaScript numbers). A double with binary exponent \<open>e\<close> is an integer
  multiple of 2^(e - 52), here \<open>pow2 (e - 52)\<close>; the least exponent is -1022, which gives
  the subnormal numbers their spacing 2^(-1074). Overflow to an infinity (a result of
  2^1024 or more) is outside the model; a distribution has values between 0 and 1.
\<close>

definition pow2 :: "int \<Rightarrow> real" where
  "pow2 k = (if 0 \<le> k then 2 ^ nat k else 1 / 2 ^ nat (- k))"

definition roundHalfEven :: "real \<Rightarrow> int" where
  "roundHalfEven y =
     (let f = \<lfloor>y\<rfloor>; r = y - of_int f
      in if r < 1 / 2 then f else if 1 / 2 < r then f + 1 else if even f then f else f + 1)"

definition binaryExponent :: "real \<Rightarrow> int" where
  "binaryExponent x = max (- 1022) \<lfloor>log 2 \<bar>x\<bar>\<rfloor>"

definition roundDouble :: "real \<Rightarrow> real" where
  "roundDouble x =
     (if x = 0 then 0
      else (let ulp = pow2 (binaryExponent x - 52)
            in of_int (roundHalfEven (x / ulp)) * ulp))"

text \<open>The operators \<open>+\<close>, \<open>-\<close> and \<open>*\<close> on doubles.\<close>

definition fadd :: "real \<Rightarrow> real \<Rightarrow> real" where
  "fadd x y = roundDouble (x + y)"

definition fsub :: "real \<Rightarrow> real \<Rightarrow> real" where
  "fsub x y = roundDouble (x - y)"

definition fmul :: "real \<Rightarrow> real \<Rightarrow> real" where
  "fmul x y = roundDouble (x * y)"

section \<open>Tension index\<close>

record NegativeWeights =
  w_anger :: real
  w_anxiety :: real
  w_sadness :: real
  w_cynicism :: real

record PositiveWeights =
  w_resilience :: real
  w_hope :: real
  w_excitement :: real

record EmotionWeights =
  negative :: NegativeWeights
  positive :: PositiveWeights
  positiveReductionFactor :: real

text \<open>A decimal literal of the source denotes the double nearest to it.\<close>

definition EMOTION_WEIGHTS :: EmotionWeights where
  "EMOTION_WEIGHTS =
     \<lparr> negative = \<lparr> w_anger = roundDouble 1.0, w_anxiety = roundDouble 1.0,
                    w_sadness = roundDouble 0.7, w_cynicism = roundDouble 0.4 \<rparr>,
       positive = \<lparr> w_resilience = roundDouble 0.5, w_hope = roundDouble 0.7,
                    w_excitement = roundDouble 0.3 \<rparr>,
       positiveReductionFactor = roundDouble 0.5 \<rparr>"

text \<open>
  \<open>Math.round\<close> rounds to the nearest integer, a tie going towards plus infinity; the
  nearest integer to a double is computed exactly.
\<close>

definition Math_round :: "real \<Rightarrow> int" where
  "Math_round x = \<lfloor>x + 1 / 2\<rfloor>"

text \<open>
  \<open>calculateTensionIndex\<close>, every operation of the source in its order (sums associate to
  the left). The argument holds the doubles of a distribution.
\<close>

definition calculateTensionIndex :: "EmotionDistribution \<Rightarrow> int" where
  "calculateTensionIndex emotions =
     (let neg = negative EMOTION_WEIGHTS;
          pos = positive EMOTION_WEIGHTS;
          negativeScore =
            fadd (fadd (fadd (fmul (emotions Anger) (w_anger neg))
                             (fmul (emotions Anxiety) (w_anxiety neg)))
                       (fmul (emotions Sadness) (w_sadness neg)))
                 (fmul (emotions Cynicism) (w_cynicism neg));
          positiveScore =
            fadd (fadd (fmul (emotions Resilience) (w_resilience pos))
                       (fmul (emotions Hope) (w_hope pos)))
                 (fmul (emotions Excitement) (w_excitement pos));
          tension = max 0 (fsub negativeScore
                             (fmul positiveScore (positiveReductionFactor EMOTION_WEIGHTS)))
      in min 100 (Math_round (fmul tension (roundDouble 100))))"

section \<open>Cosine similarity\<close>

text \<open>
  A JavaScript division by zero gives NaN or an infinity instead of raising. The model
  makes that outcome visible: a quotient whose divisor is zero is \<open>Inl NotFinite\<close>.
\<close>

datatype arith_error = NotFinite

definition js_divide :: "real \<Rightarrow> real \<Rightarrow> arith_error + real" where
  "js_divide x y = (if y = 0 then Inl NotFinite else Inr (x / y))"

text \<open>The loop of \<open>cosineSimilarity\<close>; its state is \<open>(dotProduct, normA, normB)\<close>.\<close>

definition cosineStep :: "real list \<Rightarrow> real list \<Rightarrow> nat \<Rightarrow> real \<times> real \<times> real \<Rightarrow> real \<times> real \<times> real" where
  "cosineStep a b i st =
     (case st of (dotProduct, normA, normB) \<Rightarrow>
        (dotProduct + a ! i * b ! i, normA + a ! i * a ! i, normB + b ! i * b ! i))"

definition cosineSimilarity :: "real list \<Rightarrow> real list \<Rightarrow> arith_error + real" where
  "cosineSimilarity a b =
     (if length a \<noteq> length b then Inr 0
      else (case fold (cosineStep a b) [0..<length a] (0, 0, 0) of
              (dotProduct, normA, normB) \<Rightarrow>
                if normA = 0 \<or> normB = 0 then Inr 0
                else js_divide dotProduct (sqrt normA * sqrt normB)))"

section \<open>Greedy clustering\<close>

record DocumentVector =
  dvItem :: NormalizedItem
  dvVector :: "real list"
  dvTerms :: "string list"

text \<open>
  \<open>similarity >= similarityThreshold\<close> for the vectors at the indices \<open>i\<close> and \<open>j\<close>; a
  comparison with NaN is false.
\<close>

definition similarAt :: "DocumentVector list \<Rightarrow> real \<Rightarrow> nat \<Rightarrow> nat \<Rightarrow> bool" where
  "similarAt vectors similarityThreshold i j =
     (case cosineSimilarity (dvVector (vectors ! i)) (dvVector (vectors ! j)) of
        Inr similarity \<Rightarrow> similarity \<ge> similarityThreshold
      | Inl _ \<Rightarrow> False)"

text \<open>
  The inner loop of \<open>clusterBySimilarity\<close>, over \<open>j\<close>; its state is the cluster under
  construction and the set \<open>assigned\<close>.
\<close>

definition clusterInnerStep ::
  "DocumentVector list \<Rightarrow> real \<Rightarrow> nat \<Rightarrow> nat \<Rightarrow> DocumentVector list \<times> nat set
     \<Rightarrow> DocumentVector list \<times> nat set" where
  "clusterInnerStep vectors similarityThreshold i j st =
     (if j \<in> snd st then st
      else if similarAt vectors similarityThreshold i j
           then (fst st @ [vectors ! j], insert j (snd st))
           else st)"

text \<open>The outer loop, over \<open>i\<close>; its state is \<open>clusters\<close> and \<open>assigned\<close>.\<close>

definition clusterOuterStep ::
  "DocumentVector list \<Rightarrow> real \<Rightarrow> nat \<Rightarrow> DocumentVector list list \<times> nat set
     \<Rightarrow> DocumentVector list list \<times> nat set" where
  "clusterOuterStep vectors similarityThreshold i st =
     (if i \<in> snd st then st
      else (let (cluster, assigned) =
                  fold (clusterInnerStep vectors similarityThreshold i)
                    [i + 1..<length vectors] ([vectors ! i], insert i (snd st))
            in (fst st @ [cluster], assigned)))"

definition clusterBySimilarity :: "DocumentVector list \<Rightarrow> real \<Rightarrow> DocumentVector list list" where
  "clusterBySimilarity vectors similarityThreshold =
     fst (fold (clusterOuterStep vectors similarityThreshold) [0..<length vectors] ([], {}))"

section \<open>Cluster weight\<close>

definition calculateClusterWeight :: "int \<Rightarrow> NormalizedItem list \<Rightarrow> real" where
  "calculateClusterWeight now items =
     fold (\<lambda>item weight.
             (let recency = recencyWeight now (createdAt item) 6;
                  eng = log 10 (capEngagement (engagement item) 1000 + 2);
                  relevance = relevanceOrDefault item
              in weight + recency * eng * relevance))
       items 0"

section \<open>TF-IDF vectors\<close>

definition ENGLISH_STOP_WORDS :: "string list" where
  "ENGLISH_STOP_WORDS =
     [''the'', ''a'', ''an'', ''and'', ''or'', ''but'', ''in'', ''on'', ''at'', ''to'', ''for'', ''of'',
      ''with'', ''by'', ''from'', ''as'', ''is'', ''was'', ''are'', ''were'', ''been'', ''be'',
      ''have'', ''has'', ''had'', ''do'', ''does'', ''did'', ''will'', ''would'', ''could'',
      ''should'', ''may'', ''might'', ''must'', ''can'', ''this'', ''that'', ''these'', ''those'',
      ''it'', ''its'', ''he'', ''she'', ''they'', ''we'', ''you'', ''who'', ''what'', ''where'',
      ''when'', ''why'', ''how'', ''all'', ''each'', ''every'', ''both'', ''few'', ''more'',
      ''most'', ''other'', ''some'', ''such'', ''no'', ''not'', ''only'', ''same'', ''so'',
      ''than'', ''too'', ''very'', ''just'', ''also'', ''now'', ''new'', ''said'', ''says'',
      ''according'', ''report'', ''reports'', ''reported'', ''after'', ''before'']"

text \<open>
  \<open>isStopWord\<close> on ASCII terms. The Hebrew stop words of the source, and its second test
  (for terms with a character in U+0590..U+05FF), cannot match a term of ASCII characters.
\<close>

definition isStopWord :: "string \<Rightarrow> bool" where
  "isStopWord term' \<longleftrightarrow> toLowerCase term' \<in> set ENGLISH_STOP_WORDS"

definition extractTerms :: "string \<Rightarrow> string list" where
  "extractTerms txt =
     filter (\<lambda>term'. length term' > 1 \<and> \<not> isStopWord term')
       (splitWhitespace
          (map (\<lambda>c. if isLetter c \<or> isDigit c \<or> isSpace c then c else CHR '' '')
             (toLowerCase txt)))"

definition calculateTF :: "string \<Rightarrow> TermFrequency" where
  "calculateTF txt =
     (let terms = extractTerms txt;
          tf = fold (\<lambda>term' tf. AList.update term' (lookupOr0 tf term' + 1) tf) terms [];
          maxFreq = fold max (map snd (objectEntries tf)) 1
      in fold (\<lambda>term' tf. AList.update term' (lookupOr0 tf term' / maxFreq) tf) (objectKeys tf) tf)"

definition calculateIDF :: "TermFrequency list \<Rightarrow> TermFrequency" where
  "calculateIDF documents =
     (let docCount = length documents;
          termDocCount =
            fold (\<lambda>doc counts.
                    fold (\<lambda>term' counts. AList.update term' (lookupOr0 counts term' + 1) counts)
                      (objectKeys doc) counts)
              documents []
      in fold (\<lambda>term' idf.
                 AList.update term' (ln (real docCount / (lookupOr0 termDocCount term' + 1)) + 1) idf)
           (objectKeys termDocCount) [])"

text \<open>\<open>Object.keys(idf).sort()\<close> orders the keys as strings, character code by character code.\<close>

definition createTFIDFVectors :: "NormalizedItem list \<Rightarrow> DocumentVector list" where
  "createTFIDFVectors items =
     (let documents = map (\<lambda>item. calculateTF (titleAndText item)) items;
          idf = calculateIDF documents;
          allTerms = sort (objectKeys idf)
      in map (\<lambda>i. (let tf = documents ! i
                     in \<lparr> dvItem = items ! i,
                          dvVector = map (\<lambda>term'. lookupOr0 tf term' * lookupOr0 idf term') allTerms,
                          dvTerms = allTerms \<rparr>))
           [0..<length items])"

text \<open>
  \<open>getTopKeywords\<close>; \<open>doc.vector[i]\<close> is read for every index of \<open>doc.terms\<close>, and the
  vectors of \<open>createTFIDFVectors\<close> are as long as their term lists.
\<close>

definition getTopKeywords :: "DocumentVector list \<Rightarrow> nat \<Rightarrow> string list" where
  "getTopKeywords vectors n =
     (let termScores =
            fold (\<lambda>doc scores.
                    fold (\<lambda>i scores.
                            (let term' = dvTerms doc ! i; score = dvVector doc ! i
                             in AList.update term' (lookupOr0 scores term' + score) scores))
                      [0..<length (dvTerms doc)] scores)
              vectors []
      in map fst (take n (sort_key (\<lambda>e. - snd e) (objectEntries termScores))))"

section \<open>Topics\<close>

text \<open>
  Field names that other records already use carry the name of their record: \<open>receiptId\<close>
  is \<open>id\<close> of a receipt, \<open>topicKeywords\<close> is \<open>keywords\<close> of a topic, and so on.
\<close>

record Receipt =
  receiptId :: string
  receiptTitle :: string
  snippet :: string
  receiptUrl :: string
  receiptSource :: Source
  receiptLanguage :: Language
  receiptEngagement :: real
  receiptCreatedAt :: int
  receiptLocation :: "Location option"
  receiptFaviconUrl :: "string option"
  receiptImageUrl :: "string option"
  receiptEventType :: "EventType option"
  receiptEventDate :: "int option"
  receiptVenue :: "string option"
  receiptMoodScore :: "real option"

record Topic =
  topicId :: string
  topicTitle :: string
  topicKeywords :: "string list"
  whyTrending :: string
  emotionMix :: EmotionDistribution
  topicWeight :: real
  topicDelta :: real
  receipts :: "Receipt list"
  locations :: "Location list option"

text \<open>\<open>[...items].sort((a, b) => b.engagement - a.engagement)\<close>: a stable sort, highest
  engagement first.\<close>

definition sortByEngagement :: "NormalizedItem list \<Rightarrow> NormalizedItem list" where
  "sortByEngagement items = sort_key (\<lambda>item. - engagement item) items"

definition itemsToReceipts :: "NormalizedItem list \<Rightarrow> nat \<Rightarrow> Receipt list" where
  "itemsToReceipts items maxReceipts =
     map (\<lambda>item.
            \<lparr> receiptId = itemId item, receiptTitle = title item, snippet = textOrEmpty item,
              receiptUrl = url item, receiptSource = source item,
              receiptLanguage = language item, receiptEngagement = engagement item,
              receiptCreatedAt = createdAt item, receiptLocation = location item,
              receiptFaviconUrl = faviconUrl item, receiptImageUrl = imageUrl item,
              receiptEventType = eventType item, receiptEventDate = eventDate item,
              receiptVenue = venue item, receiptMoodScore = moodScore item \<rparr>)
       (take maxReceipts (sortByEngagement items))"

definition generateKeywordTitle :: "string list \<Rightarrow> string" where
  "generateKeywordTitle kws =
     joinWith '' / ''
       (map (\<lambda>k. (case k of [] \<Rightarrow> [] | c # cs \<Rightarrow> upperChar c # cs)) (take 3 kws))"

text \<open>
  \<open>generateId\<close> keeps the first 16 characters of the hexadecimal SHA-256 digest; the digest
  function of the platform is the parameter \<open>sha256hex\<close>.
\<close>

definition generateId :: "(string \<Rightarrow> string) \<Rightarrow> string \<Rightarrow> string" where
  "generateId sha256hex content = take 16 (sha256hex content)"

record ClusteringConfig =
  cfgSimilarityThreshold :: real
  cfgMaxTopics :: int
  cfgMinClusterSize :: int
  cfgKeywordsPerTopic :: nat
  cfgReceiptsPerTopic :: nat

definition CLUSTERING_CONFIG :: ClusteringConfig where
  "CLUSTERING_CONFIG =
     \<lparr> cfgSimilarityThreshold = 25 / 100, cfgMaxTopics = 12, cfgMinClusterSize = 2,
       cfgKeywordsPerTopic = 5, cfgReceiptsPerTopic = 5 \<rparr>"

text \<open>The intermediate objects of \<open>clusterIntoTopics\<close>, one per surviving cluster.\<close>

record ClusterInfo =
  clItems :: "NormalizedItem list"
  clVectors :: "DocumentVector list"
  clWeight :: real
  clKeywords :: "string list"
  clEmotions :: EmotionDistribution

text \<open>
  \<open>xs.slice(0, n)\<close> for an integer \<open>n\<close>: the first \<open>n\<close> elements, and for a negative \<open>n\<close>
  all but the last \<open>-n\<close>.
\<close>

definition sliceFrom0 :: "'a list \<Rightarrow> int \<Rightarrow> 'a list" where
  "sliceFrom0 xs n = (if n < 0 then take (nat (int (length xs) + n)) xs else take (nat n) xs)"

definition buildCluster :: "int \<Rightarrow> DocumentVector list \<Rightarrow> ClusterInfo" where
  "buildCluster now cluster =
     (let clusterItems = map dvItem cluster
      in \<lparr> clItems = clusterItems, clVectors = cluster,
           clWeight = calculateClusterWeight now clusterItems,
           clKeywords = getTopKeywords cluster (cfgKeywordsPerTopic CLUSTERING_CONFIG),
           clEmotions = aggregateEmotions now clusterItems \<rparr>)"

text \<open>The constant \<open>clusters\<close> of \<open>clusterIntoTopics\<close>: filter, map, sort, slice.\<close>

definition selectClusters :: "int \<Rightarrow> NormalizedItem list \<Rightarrow> int \<Rightarrow> int \<Rightarrow> ClusterInfo list" where
  "selectClusters now uniqueItems maxTopics minClusterSize =
     (let vectors = createTFIDFVectors uniqueItems;
          rawClusters = clusterBySimilarity vectors (cfgSimilarityThreshold CLUSTERING_CONFIG)
      in sliceFrom0
           (sort_key (\<lambda>c. - clWeight c)
              (map (buildCluster now)
                 (filter (\<lambda>c. int (length c) \<ge> minClusterSize) rawClusters)))
           maxTopics)"

definition buildTopic :: "(string \<Rightarrow> string) \<Rightarrow> ClusterInfo \<Rightarrow> Topic" where
  "buildTopic sha256hex cluster =
     \<lparr> topicId = generateId sha256hex (''topic:'' @ joinWith '':'' (clKeywords cluster)),
       topicTitle = generateKeywordTitle (clKeywords cluster),
       topicKeywords = clKeywords cluster,
       whyTrending = ''Analyzing...'',
       emotionMix = clEmotions cluster,
       topicWeight = clWeight cluster,
       topicDelta = 0,
       receipts = itemsToReceipts (clItems cluster) (cfgReceiptsPerTopic CLUSTERING_CONFIG),
       locations = None \<rparr>"

definition clusterIntoTopics ::
  "(string \<Rightarrow> string) \<Rightarrow> int \<Rightarrow> NormalizedItem list \<Rightarrow> int \<Rightarrow> int \<Rightarrow> Topic list" where
  "clusterIntoTopics sha256hex now items maxTopics minClusterSize =
     (let uniqueItems = filter (\<lambda>item. \<not> isDuplicate item) items
      in if length uniqueItems = 0 then []
         else map (buildTopic sha256hex) (selectClusters now uniqueItems maxTopics minClusterSize))"

section \<open>URL normalization\<close>

text \<open>
  The platform's URL parser (\<open>new URL(url)\<close>) is a parameter: it returns the parts of the
  URL, or \<open>None\<close> where the constructor throws. So is its regular expression matcher, for
  the five entity patterns of the deduplicator: \<open>regexMatch p s\<close> is the list of the matches
  of pattern \<open>p\<close> in \<open>s\<close> (empty where \<open>s.match\<close> returns \<open>null\<close>).
\<close>

record ParsedURL =
  protocol :: string
  hostname :: string
  pathname :: string
  search :: string
  hash :: string

datatype EntityPattern = Numbers | CapitalizedWords | QuotedPhrases | Titles | Honorifics

record Platform =
  parseURL :: "string \<Rightarrow> ParsedURL option"
  regexMatch :: "EntityPattern \<Rightarrow> string \<Rightarrow> string list"

text \<open>\<open>s.replace(/^prefix/, '')\<close> for a literal prefix, and \<open>s.replace(/\/$/, '')\<close>.\<close>

definition stripPrefix :: "string \<Rightarrow> string \<Rightarrow> string" where
  "stripPrefix p s = (if startsWith s p then drop (length p) s else s)"

definition stripTrailingSlash :: "string \<Rightarrow> string" where
  "stripTrailingSlash s = (if s \<noteq> [] \<and> last s = CHR ''/'' then butlast s else s)"

text \<open>
  \<open>normalizeUrl\<close> with its default options (every caller of the core uses them): protocol,
  \<open>www.\<close>, trailing slash, query and hash are removed. The second branch is the
  \<open>catch\<close> block; \<open>/^https?:\/\//\<close> removes \<open>http://\<close> or \<open>https://\<close>.
\<close>

definition normalizeUrl :: "Platform \<Rightarrow> string \<Rightarrow> string" where
  "normalizeUrl env u =
     (case parseURL env u of
        Some parsed \<Rightarrow>
          toLowerCase (stripPrefix ''www.'' (hostname parsed) @ stripTrailingSlash (pathname parsed))
      | None \<Rightarrow>
          (let normalized = toLowerCase u;
               normalized = (if startsWith normalized ''https://'' then drop 8 normalized
                             else stripPrefix ''http://'' normalized);
               normalized = stripPrefix ''www.'' normalized
           in stripTrailingSlash normalized))"

definition extractDomain :: "Platform \<Rightarrow> string \<Rightarrow> string" where
  "extractDomain env u =
     (case parseURL env u of
        Some parsed \<Rightarrow> stripPrefix ''www.'' (hostname parsed)
      | None \<Rightarrow> [])"

section \<open>Similarity of two items\<close>

text \<open>A \<open>Set\<close> of strings is the list of its elements in insertion order.\<close>

definition toSet :: "string list \<Rightarrow> string list" where
  "toSet xs = fold (\<lambda>x s. if x \<in> set s then s else s @ [x]) xs []"

definition tokenize :: "string \<Rightarrow> string list" where
  "tokenize txt =
     toSet (filter (\<lambda>w. length w > 2)
              (splitWhitespace
                 (filter (\<lambda>c. isLetter c \<or> isDigit c \<or> isSpace c) (toLowerCase txt))))"

definition jaccardSimilarity :: "string list \<Rightarrow> string list \<Rightarrow> real" where
  "jaccardSimilarity a b =
     (if length a = 0 \<and> length b = 0 then 0
      else (let intersection = toSet (filter (\<lambda>x. x \<in> set b) a);
                union = toSet (a @ b)
            in real (length intersection) / real (length union)))"

definition extractKeyEntities :: "Platform \<Rightarrow> string \<Rightarrow> string list" where
  "extractKeyEntities env txt =
     toSet (regexMatch env Numbers txt
            @ map toLowerCase (regexMatch env CapitalizedWords txt)
            @ map toLowerCase (regexMatch env QuotedPhrases txt)
            @ map toLowerCase (regexMatch env Titles txt)
            @ map toLowerCase (regexMatch env Honorifics txt))"

definition PHRASE_STOP_WORDS :: "string list" where
  "PHRASE_STOP_WORDS =
     [''the'', ''and'', ''for'', ''are'', ''but'', ''not'', ''you'', ''all'', ''can'', ''has'',
      ''have'', ''was'', ''were'', ''been'', ''being'', ''will'', ''would'', ''could'', ''should'',
      ''that'', ''this'', ''with'', ''from'', ''they'', ''which'', ''their'', ''there'', ''what'',
      ''about'', ''into'', ''more'', ''other'', ''than'', ''then'', ''these'', ''some'']"

definition extractPhrases :: "string \<Rightarrow> string list" where
  "extractPhrases txt =
     (let ws = filter (\<lambda>w. length w > 2)
                 (splitWhitespace
                    (map (\<lambda>c. if isLetter c \<or> isDigit c \<or> isSpace c then c else CHR '' '')
                       (toLowerCase txt)))
      in fold (\<lambda>i phrases.
                 if ws ! i \<in> set PHRASE_STOP_WORDS \<or> ws ! (i + 2) \<in> set PHRASE_STOP_WORDS
                 then phrases
                 else (let phrase = ws ! i @ '' '' @ ws ! (i + 1) @ '' '' @ ws ! (i + 2)
                       in if length phrase > 10 then phrases @ [phrase] else phrases))
           [0..<length ws - 2] [])"

definition isSameStory :: "Platform \<Rightarrow> NormalizedItem \<Rightarrow> NormalizedItem \<Rightarrow> bool" where
  "isSameStory env a b =
     (let textA = titleAndText a;
          textB = titleAndText b;
          entitiesA = extractKeyEntities env textA;
          entitiesB = extractKeyEntities env textB
      in if length entitiesA < 2 \<or> length entitiesB < 2 then False
         else (let intersection = toSet (filter (\<lambda>e. e \<in> set entitiesB) entitiesA);
                   minSize = min (length entitiesA) (length entitiesB);
                   overlapRatio = real (length intersection) / real minSize
               in if overlapRatio \<ge> 0.6 \<and> length intersection \<ge> 3 then True
                  else (let phrasesA = extractPhrases textA;
                            phrasesB = extractPhrases textB;
                            sharedPhrases = filter (\<lambda>p. p \<in> set phrasesB) phrasesA
                        in if length sharedPhrases \<ge> 2 then True else False)))"

text \<open>The first test of \<open>calculateSimilarity\<close>: both URLs present and equal once normalized.\<close>

definition sameNormalizedUrl :: "Platform \<Rightarrow> NormalizedItem \<Rightarrow> NormalizedItem \<Rightarrow> bool" where
  "sameNormalizedUrl env a b \<longleftrightarrow>
     url a \<noteq> [] \<and> url b \<noteq> [] \<and> normalizeUrl env (url a) = normalizeUrl env (url b)"

definition hasSubstringMatch :: "NormalizedItem \<Rightarrow> NormalizedItem \<Rightarrow> bool" where
  "hasSubstringMatch a b =
     (let titleALower = toLowerCase (title a);
          titleBLower = toLowerCase (title b)
      in (length titleALower > 20 \<and> includesStr titleBLower (take 30 titleALower))
         \<or> (length titleBLower > 20 \<and> includesStr titleALower (take 30 titleBLower)))"

definition calculateSimilarity :: "Platform \<Rightarrow> NormalizedItem \<Rightarrow> NormalizedItem \<Rightarrow> real" where
  "calculateSimilarity env a b =
     (if sameNormalizedUrl env a b then 1
      else (let titleSimilarity = jaccardSimilarity (tokenize (title a)) (tokenize (title b))
            in if hasSubstringMatch a b then max titleSimilarity 0.85
               else if titleSimilarity > 0.5
                       \<and> (let domainA = extractDomain env (url a); domainB = extractDomain env (url b)
                            in domainA \<noteq> [] \<and> domainB \<noteq> [] \<and> domainA = domainB)
                    then max titleSimilarity 0.8
               else if titleSimilarity > 0.3 \<and> isSameStory env a b then max titleSimilarity 0.75
               else if titleSimilarity > 0.4
                    then (let textSimilarity =
                                jaccardSimilarity (tokenize (textOrEmpty a)) (tokenize (textOrEmpty b))
                          in if textSimilarity > 0.5
                             then max (titleSimilarity * 0.4 + textSimilarity * 0.6) 0.7
                             else titleSimilarity * 0.7 + textSimilarity * 0.3)
               else titleSimilarity))"

section \<open>Deduplication\<close>

text \<open>
  The loop of \<open>deduplicateItems\<close> over the sorted items; its state is \<open>unique\<close> and
  \<open>seenUrls\<close>. \<open>accepts\<close> says that the item passes both tests.
\<close>

definition normalizedUrlOf :: "Platform \<Rightarrow> NormalizedItem \<Rightarrow> string" where
  "normalizedUrlOf env item = (if url item \<noteq> [] then normalizeUrl env (url item) else [])"

definition accepts ::
  "Platform \<Rightarrow> real \<Rightarrow> NormalizedItem list \<times> string set \<Rightarrow> NormalizedItem \<Rightarrow> bool" where
  "accepts env similarityThreshold st item \<longleftrightarrow>
     \<not> (normalizedUrlOf env item \<noteq> [] \<and> normalizedUrlOf env item \<in> snd st)
     \<and> \<not> list_ex (\<lambda>existing. calculateSimilarity env item existing \<ge> similarityThreshold) (fst st)"

definition dedupStep ::
  "Platform \<Rightarrow> real \<Rightarrow> NormalizedItem \<Rightarrow> NormalizedItem list \<times> string set
     \<Rightarrow> NormalizedItem list \<times> string set" where
  "dedupStep env similarityThreshold item st =
     (if accepts env similarityThreshold st item
      then (fst st @ [item],
            if normalizedUrlOf env item \<noteq> [] then insert (normalizedUrlOf env item) (snd st)
            else snd st)
      else st)"

definition deduplicateItems :: "Platform \<Rightarrow> NormalizedItem list \<Rightarrow> real \<Rightarrow> NormalizedItem list" where
  "deduplicateItems env items similarityThreshold =
     fst (fold (dedupStep env similarityThreshold) (sortByEngagement items) ([], {}))"

section \<open>Day-over-day deltas\<close>

record SnapshotTopic =
  snapshotKeywords :: "string list"
  receiptIds :: "string list"

record DailySnapshot =
  snapshotDate :: string
  tensionIndex :: real
  snapshotEmotions :: EmotionDistribution
  topTopics :: "SnapshotTopic list"
  llmOutputs :: "(string \<times> string) list"

definition calculateTensionDelta :: "real \<Rightarrow> DailySnapshot option \<Rightarrow> real" where
  "calculateTensionDelta currentTension yesterdaySnapshot =
     (case yesterdaySnapshot of
        None \<Rightarrow> 0
      | Some y \<Rightarrow> currentTension - tensionIndex y)"

text \<open>
  \<open>calculateTopicDelta\<close>; the snapshot is \<open>None\<close> for \<open>null\<close>, and its \<open>topTopics\<close> is an
  array, which is truthy also when it is empty.
\<close>

definition topicDeltaStep :: "Topic \<Rightarrow> SnapshotTopic \<Rightarrow> real \<Rightarrow> real" where
  "topicDeltaStep topic yesterdayTopic bestMatch =
     (let overlap = length (filter (\<lambda>k. k \<in> set (snapshotKeywords yesterdayTopic)) (topicKeywords topic));
          maxKeywords = max (length (topicKeywords topic)) (length (snapshotKeywords yesterdayTopic));
          similarity = (if maxKeywords > 0 then real overlap / real maxKeywords else 0)
      in max bestMatch similarity)"

definition calculateTopicDelta :: "Topic \<Rightarrow> DailySnapshot option \<Rightarrow> real" where
  "calculateTopicDelta topic yesterdaySnapshot =
     (case yesterdaySnapshot of
        None \<Rightarrow> 0
      | Some y \<Rightarrow>
          (let bestMatch = fold (topicDeltaStep topic) (topTopics y) 0
           in if bestMatch < 0.3 then 1 else 0))"

chapter \<open>Notions used to state the properties\<close>

section \<open>Distributions, weights and the clock\<close>

text \<open>The distribution with \<open>neutral = 1\<close> and every other emotion 0.\<close>

definition neutralDistribution :: EmotionDistribution where
  "neutralDistribution = createEmptyDistribution(Neutral := 1)"

text \<open>The total weight of the items that \<open>aggregateEmotions\<close> does not skip.\<close>

definition totalWeight :: "int \<Rightarrow> NormalizedItem list \<Rightarrow> real" where
  "totalWeight now items =
     (\<Sum>item \<leftarrow> filter (\<lambda>item. \<not> isDuplicate item) items. itemWeight now item)"

text \<open>
  The same item created \<open>d\<close> milliseconds later: read at a clock that is \<open>d\<close> milliseconds
  later as well, it has the same age.
\<close>

definition delayed :: "int \<Rightarrow> NormalizedItem \<Rightarrow> NormalizedItem" where
  "delayed d item = item\<lparr>createdAt := createdAt item + d\<rparr>"

section \<open>The tension index, in the words of the specification\<close>

text \<open>
  The tension formula in the words of the specification, with the constants written out,
  read as a formula of exact arithmetic.
\<close>

definition tension_spec :: "EmotionDistribution \<Rightarrow> int" where
  "tension_spec e =
     (let negativeScore = e Anger * 1.0 + e Anxiety * 1.0 + e Sadness * 0.7 + e Cynicism * 0.4;
          positiveScore = e Resilience * 0.5 + e Hope * 0.7 + e Excitement * 0.3
      in min 100 (Math_round (100 * max 0 (negativeScore - positiveScore * 0.5))))"

text \<open>
  The same formula with every constant, product, sum and difference rounded to a double,
  the sums taken from left to right.
\<close>

definition tension_in_doubles :: "EmotionDistribution \<Rightarrow> int" where
  "tension_in_doubles e =
     (let negativeScore =
            fadd (fadd (fadd (fmul (e Anger) (roundDouble 1.0)) (fmul (e Anxiety) (roundDouble 1.0)))
                       (fmul (e Sadness) (roundDouble 0.7)))
                 (fmul (e Cynicism) (roundDouble 0.4));
          positiveScore =
            fadd (fadd (fmul (e Resilience) (roundDouble 0.5)) (fmul (e Hope) (roundDouble 0.7)))
                 (fmul (e Excitement) (roundDouble 0.3));
          positiveReductionFactor = roundDouble 0.5
      in min 100 (Math_round (fmul (roundDouble 100)
                    (max 0 (fsub negativeScore (fmul positiveScore positiveReductionFactor))))))"

definition allNeutral :: EmotionDistribution where
  "allNeutral = createEmptyDistribution(Neutral := 1)"

definition allAnger :: EmotionDistribution where
  "allAnger = createEmptyDistribution(Anger := 1)"

section \<open>Per-item scores\<close>

text \<open>
  The per-item score in the words of the specification: the raw score of a category is
  the number of occurrences of its keywords, as case-insensitive substrings, in
  \<open>title + text\<close>; a zero total gives \<open>neutral = 1\<close>, otherwise the raw scores are divided
  by the total.
\<close>

fun countOccurrences :: "string \<Rightarrow> string \<Rightarrow> nat" where
  "countOccurrences [] k = (if k = [] then 1 else 0)"
| "countOccurrences (c # cs) k =
     (if startsWith (c # cs) k then 1 else 0) + countOccurrences cs k"

definition rawScore_spec :: "NormalizedItem \<Rightarrow> Emotion \<Rightarrow> nat" where
  "rawScore_spec item emotion =
     (\<Sum>keyword \<leftarrow> EMOTION_KEYWORDS emotion.
        countOccurrences (toLowerCase (title item @ textOrEmpty item)) (toLowerCase keyword))"

definition scoreItemEmotions_spec :: "NormalizedItem \<Rightarrow> EmotionDistribution" where
  "scoreItemEmotions_spec item =
     (let total = (\<Sum>emotion \<leftarrow> EMOTIONS. rawScore_spec item emotion)
      in if total = 0 then neutralDistribution
         else (\<lambda>emotion. real (rawScore_spec item emotion) / real total))"

text \<open>
  What the code counts: the keywords of a category that are present in the lower-cased
  \<open>title + ' ' + text\<close>, each keyword once however often it occurs.
\<close>

definition keywordsPresent :: "NormalizedItem \<Rightarrow> Emotion \<Rightarrow> nat" where
  "keywordsPresent item emotion =
     length (filter (\<lambda>keyword. includesStr (toLowerCase (titleAndText item)) (toLowerCase keyword))
               (EMOTION_KEYWORDS emotion))"

section \<open>Norms\<close>

text \<open>The squared norm and the dot product, used to state the properties.\<close>

definition normSq :: "real list \<Rightarrow> real" where
  "normSq v = (\<Sum>x \<leftarrow> v. x * x)"

definition dotProd :: "real list \<Rightarrow> real list \<Rightarrow> real" where
  "dotProd a b = (\<Sum>(x, y) \<leftarrow> zip a b. x * y)"

section \<open>Clusters as lists of positions\<close>

text \<open>
  The same two loops, recording the index of each vector instead of the vector: the
  clusters as lists of positions in the input.
\<close>

definition indexInnerStep ::
  "DocumentVector list \<Rightarrow> real \<Rightarrow> nat \<Rightarrow> nat \<Rightarrow> nat list \<times> nat set \<Rightarrow> nat list \<times> nat set" where
  "indexInnerStep vectors similarityThreshold i j st =
     (if j \<in> snd st then st
      else if similarAt vectors similarityThreshold i j
           then (fst st @ [j], insert j (snd st))
           else st)"

definition indexOuterStep ::
  "DocumentVector list \<Rightarrow> real \<Rightarrow> nat \<Rightarrow> nat list list \<times> nat set \<Rightarrow> nat list list \<times> nat set" where
  "indexOuterStep vectors similarityThreshold i st =
     (if i \<in> snd st then st
      else (let (cluster, assigned) =
                  fold (indexInnerStep vectors similarityThreshold i)
                    [i + 1..<length vectors] ([i], insert i (snd st))
            in (fst st @ [cluster], assigned)))"

definition clusterIndices :: "DocumentVector list \<Rightarrow> real \<Rightarrow> nat list list" where
  "clusterIndices vectors similarityThreshold =
     fst (fold (indexOuterStep vectors similarityThreshold) [0..<length vectors] ([], {}))"

text \<open>What a cluster of positions has to satisfy: the seed first, the members in input
  order, every member after the seed similar to the seed.\<close>

definition seededCluster :: "DocumentVector list \<Rightarrow> real \<Rightarrow> nat list \<Rightarrow> bool" where
  "seededCluster vectors similarityThreshold c =
     (c \<noteq> [] \<and> sorted_wrt (<) c
      \<and> list_all (\<lambda>j. similarAt vectors similarityThreshold (hd c) j) (tl c))"

text \<open>
  The invariant of the outer loop once the indices below \<open>k\<close> are done: the assigned
  indices are exactly the members of the clusters, no index is in two clusters, every
  index below \<open>k\<close> is assigned, and the seeds come in increasing order.
\<close>

definition clusterInv :: "DocumentVector list \<Rightarrow> real \<Rightarrow> nat \<Rightarrow> nat list list \<times> nat set \<Rightarrow> bool" where
  "clusterInv vs th k st =
     (snd st = set (concat (fst st)) \<and> distinct (concat (fst st))
      \<and> {..<k} \<subseteq> snd st \<and> snd st \<subseteq> {..<length vs}
      \<and> list_all (seededCluster vs th) (fst st)
      \<and> sorted_wrt (<) (map hd (fst st))
      \<and> list_all (\<lambda>c. hd c < k) (fst st))"

section \<open>The items kept by the deduplicator\<close>

text \<open>The items that the loop appends when it runs over \<open>xs\<close> from the state \<open>st\<close>.\<close>

fun kept ::
  "Platform \<Rightarrow> real \<Rightarrow> NormalizedItem list \<times> string set \<Rightarrow> NormalizedItem list
     \<Rightarrow> NormalizedItem list" where
  "kept env th st [] = []"
| "kept env th st (x # xs) =
     (if accepts env th st x then x # kept env th (dedupStep env th x st) xs
      else kept env th st xs)"

section \<open>The topic delta, in the words of the specification\<close>

text \<open>
  The topic delta in the words of the specification: the overlap with one of yesterday's topics
  is the size of the keyword intersection over the larger number of keywords, the best
  match is the largest overlap, and the delta is 1 exactly when the best match is below 0.3.
\<close>

definition overlap_spec :: "string list \<Rightarrow> string list \<Rightarrow> real" where
  "overlap_spec todayKeywords yesterdayKeywords =
     real (card (set todayKeywords \<inter> set yesterdayKeywords))
     / real (max (length todayKeywords) (length yesterdayKeywords))"

definition bestMatch_spec :: "Topic \<Rightarrow> DailySnapshot \<Rightarrow> real" where
  "bestMatch_spec topic y =
     Max (insert 0 ((\<lambda>yt. overlap_spec (topicKeywords topic) (snapshotKeywords yt)) ` set (topTopics y)))"

definition topicDelta_spec :: "Topic \<Rightarrow> DailySnapshot option \<Rightarrow> real" where
  "topicDelta_spec topic yesterdaySnapshot =
     (case yesterdaySnapshot of
        None \<Rightarrow> 0
      | Some y \<Rightarrow> if bestMatch_spec topic y < 0.3 then 1 else 0)"

chapter \<open>Example inputs\<close>

section \<open>Items\<close>

text \<open>
  The item factory of the test suite (\<open>createMockItem\<close> in \<open>clustering.test.ts\<close>), with
  the creation time as an argument.
\<close>

definition createMockItem :: "string \<Rightarrow> string \<Rightarrow> string \<Rightarrow> real \<Rightarrow> int \<Rightarrow> NormalizedItem" where
  "createMockItem i ttl txt eng created =
     \<lparr> itemId = i, source = Rss, lens = Headlines, language = En, title = ttl,
       itemText = Some txt, createdAt = created, url = ''https://example.com/'' @ i,
       engagement = eng, itemContext = ''Test Source'', relevanceScore = Some (8 / 10),
       duplicateOf = None, location = None, faviconUrl = None, imageUrl = None,
       eventType = None, eventDate = None, eventEndDate = None, venue = None,
       moodScore = None \<rparr>"

text \<open>Items in the style of the test suite: one marked as a duplicate, one with relevance 0.\<close>

definition angryItem :: NormalizedItem where
  "angryItem = createMockItem ''1'' ''Angry news'' ''Outrage'' 8 0"

definition duplicateItem :: NormalizedItem where
  "duplicateItem = (createMockItem ''2'' ''Same story'' ''Outrage'' 10 0)\<lparr>duplicateOf := Some ''original''\<rparr>"

definition irrelevantItem :: NormalizedItem where
  "irrelevantItem = (createMockItem ''3'' ''Happy news'' ''Hope'' 10 0)\<lparr>relevanceScore := Some 0\<rparr>"

definition repeatedKeywordItem :: NormalizedItem where
  "repeatedKeywordItem = (createMockItem ''1'' ''Angry angry hope'' '''' 10 0)\<lparr>itemText := None\<rparr>"

definition weatherItem :: NormalizedItem where
  "weatherItem = createMockItem ''1'' ''Weather report'' ''Sunny with clouds'' 10 0"

text \<open>
  An item with one keyword of sadness and one of resilience, and the distribution that
  \<open>scoreItemEmotions\<close> gives it.
\<close>

definition sadHeroItem :: NormalizedItem where
  "sadHeroItem = createMockItem ''1'' ''Sad hero'' [] 10 0"

definition sadHero :: EmotionDistribution where
  "sadHero = createEmptyDistribution(Sadness := 1 / 2, Resilience := 1 / 2)"

section \<open>Document vectors\<close>

text \<open>Three document vectors over two terms; the first and the third point the same way.\<close>

definition exampleVectors :: "DocumentVector list" where
  "exampleVectors =
     [\<lparr> dvItem = createMockItem ''1'' ''aa'' [] 10 0, dvVector = [1, 0], dvTerms = [''aa'', ''bb''] \<rparr>,
      \<lparr> dvItem = createMockItem ''2'' ''bb'' [] 10 0, dvVector = [0, 1], dvTerms = [''aa'', ''bb''] \<rparr>,
      \<lparr> dvItem = createMockItem ''3'' ''aa'' [] 10 0, dvVector = [1, 0], dvTerms = [''aa'', ''bb''] \<rparr>]"

section \<open>Example items for the deduplicator\<close>

text \<open>
  A platform for examples whose URLs are not absolute URLs (\<open>new URL\<close> throws on them) and
  whose texts are lower-case words without digits, quotes, titles or honorifics (none of
  the five entity patterns matches them).
\<close>

definition examplePlatform :: Platform where
  "examplePlatform = \<lparr> parseURL = (\<lambda>u. None), regexMatch = (\<lambda>p s. []) \<rparr>"

text \<open>A title of exactly 20 characters, and a longer title that contains it.\<close>

definition shortTitleItem :: NormalizedItem where
  "shortTitleItem =
     (createMockItem ''1'' ''storm warning issued'' [] 100 0)\<lparr>url := ''a'', itemText := None\<rparr>"

definition longTitleItem :: NormalizedItem where
  "longTitleItem =
     (createMockItem ''2'' ''storm warning issued for the northern coast today and tomorrow morning''
        [] 50 0)\<lparr>url := ''b'', itemText := None\<rparr>"

text \<open>A title of 28 characters, and the same title followed by the name of its source.\<close>

definition plainTitleItem :: NormalizedItem where
  "plainTitleItem =
     (createMockItem ''3'' ''storm warning issued tonight'' [] 100 0)\<lparr>url := ''a'', itemText := None\<rparr>"

definition sourceTitleItem :: NormalizedItem where
  "sourceTitleItem =
     (createMockItem ''4'' ''storm warning issued tonight - daily news'' [] 50 0)
       \<lparr>url := ''b'', itemText := None\<rparr>"

section \<open>Example topics and snapshots\<close>

definition topicWithKeywords :: "string list \<Rightarrow> Topic" where
  "topicWithKeywords kws =
     \<lparr> topicId = ''topic1'', topicTitle = generateKeywordTitle kws, topicKeywords = kws,
       whyTrending = ''Analyzing...'', emotionMix = neutralDistribution, topicWeight = 1,
       topicDelta = 0, receipts = [], locations = None \<rparr>"

definition snapshotWithTopics :: "string list list \<Rightarrow> DailySnapshot" where
  "snapshotWithTopics kwss =
     \<lparr> snapshotDate = ''2024-01-01'', tensionIndex = 40, snapshotEmotions = neutralDistribution,
       topTopics = map (\<lambda>kws. \<lparr> snapshotKeywords = kws, receiptIds = [] \<rparr>) kwss,
       llmOutputs = [] \<rparr>"

text \<open>A keyword list with a repeated keyword, a list without, and yesterday's topic.\<close>

definition repeatedKeywords :: "string list" where
  "repeatedKeywords = [''storm'', ''storm'', ''coast'', ''rain'', ''wind'']"

definition rocketKeywords :: "string list" where
  "rocketKeywords = [''rocket'', ''tel'', ''aviv'', ''attack'', ''sirens'']"

definition exampleSnapshot :: DailySnapshot where
  "exampleSnapshot =
     snapshotWithTopics
       [[''storm'', ''market'', ''stocks'', ''rates'', ''bank''],
        [''rocket'', ''tel'', ''aviv'', ''fire'', ''shelter'']]"

chapter \<open>Properties\<close>

section \<open>Distributions\<close>

lemma createEmptyDistribution_apply [simp]: "createEmptyDistribution e = 0"
  by (simp add: createEmptyDistribution_def EMOTIONS_def)

section \<open>Aggregated emotions\<close>

lemma sumValues_eq:
  "sumValues d = d Anger + d Anxiety + d Sadness + d Resilience + d Hope + d Excitement
     + d Cynicism + d Neutral"
  by (simp add: sumValues_def EMOTIONS_def)

lemma normalizeDistribution_apply:
  "normalizeDistribution d e =
     (if sumValues d = 0 then (if e = Neutral then 1 else 0) else d e / sumValues d)"
  by (cases e) (simp_all add: normalizeDistribution_def Let_def EMOTIONS_def)

lemma sumValues_normalizeDistribution: "sumValues (normalizeDistribution d) = 1"
proof (cases "sumValues d = 0")
  case True
  then show ?thesis by (simp add: sumValues_eq [of "normalizeDistribution d"] normalizeDistribution_apply)
next
  case False
  define s where "s = sumValues d"
  have n: "normalizeDistribution d e = d e / s" for e
    using False by (simp add: normalizeDistribution_apply s_def)
  have "sumValues (normalizeDistribution d) = sumValues d / s"
    unfolding sumValues_eq n by (simp add: add_divide_distrib)
  with False show ?thesis by (simp add: s_def)
qed

lemma normalize_empty: "normalizeDistribution createEmptyDistribution = neutralDistribution"
  by (simp add: normalizeDistribution_def sumValues_eq neutralDistribution_def)

lemma snd_aggregate_fold:
  "snd (fold (aggregateStep now) items st) = snd st + totalWeight now items"
  by (induction items arbitrary: st) (simp_all add: totalWeight_def aggregateStep_def Let_def)

lemma totalWeight_all_duplicates: "list_all isDuplicate items \<Longrightarrow> totalWeight now items = 0"
  by (induction items) (simp_all add: totalWeight_def)

lemma aggregate_zero_weight:
  assumes "totalWeight now items = 0"
  shows "aggregateEmotions now items = neutralDistribution"
proof -
  have "snd (fold (aggregateStep now) items (createEmptyDistribution, 0)) = 0"
    using assms by (simp add: snd_aggregate_fold)
  then show ?thesis
    by (cases "fold (aggregateStep now) items (createEmptyDistribution, 0)")
       (simp add: aggregateEmotions_def normalize_empty Let_def)
qed

text \<open>
  C1: for every list of items the values of \<open>aggregateEmotions\<close> sum to 1 (exactly, in
  the real-number model, hence within 1e-5); when the list is empty, when every item is marked
  \<open>duplicateOf\<close> (with the identifier of its representative, a non-empty string), or when
  the total weight is zero, the result is the distribution with \<open>neutral = 1\<close>.
\<close>

theorem C1_aggregate_sums_to_one:
  "sumValues (aggregateEmotions now items) = 1
   \<and> \<bar>sumValues (aggregateEmotions now items) - 1\<bar> \<le> 1 / 10 ^ 5
   \<and> (items = [] \<or> list_all isDuplicate items \<or> totalWeight now items = 0
        \<longrightarrow> aggregateEmotions now items = neutralDistribution)"
proof -
  have s: "sumValues (aggregateEmotions now items) = 1"
    by (simp add: aggregateEmotions_def Let_def sumValues_normalizeDistribution split: prod.splits)
  have "totalWeight now items = 0" if "items = [] \<or> list_all isDuplicate items \<or> totalWeight now items = 0"
    using that totalWeight_all_duplicates [of items now] by (auto simp: totalWeight_def)
  then show ?thesis using s aggregate_zero_weight by simp
qed

theorem C1_aggregate_sums_to_one_witness:
  "sumValues (aggregateEmotions 0 []) = 1
   \<and> aggregateEmotions 0 [] = neutralDistribution
   \<and> list_all isDuplicate [duplicateItem, duplicateItem]
   \<and> aggregateEmotions 0 [duplicateItem, duplicateItem] = neutralDistribution
   \<and> totalWeight 0 [irrelevantItem] = 0
   \<and> aggregateEmotions 0 [irrelevantItem] = neutralDistribution
   \<and> sumValues (aggregateEmotions 0 [angryItem, irrelevantItem, duplicateItem]) = 1"
proof -
  have d: "isDuplicate duplicateItem"
    by (simp add: duplicateItem_def isDuplicate_def)
  have z: "totalWeight 0 [irrelevantItem] = 0"
    by (simp add: totalWeight_def itemWeight_def irrelevantItem_def relevanceOrDefault_def
          isDuplicate_def createMockItem_def)
  have l: "list_all isDuplicate [duplicateItem, duplicateItem]"
    using d by simp
  show ?thesis
    using C1_aggregate_sums_to_one [of 0 "[]"]
      C1_aggregate_sums_to_one [of 0 "[duplicateItem, duplicateItem]"]
      C1_aggregate_sums_to_one [of 0 "[irrelevantItem]"]
      C1_aggregate_sums_to_one [of 0 "[angryItem, irrelevantItem, duplicateItem]"]
      l z
    by blast
qed

section \<open>Per-item emotion scores\<close>

lemma countMatches_fold:
  "fold (\<lambda>keyword matches. if includesStr txt (toLowerCase keyword) then matches + 1 else matches) ks n
   = n + length (filter (\<lambda>keyword. includesStr txt (toLowerCase keyword)) ks)"
  by (induction ks arbitrary: n) simp_all

lemma countMatches_eq:
  "countMatches txt ks = length (filter (\<lambda>keyword. includesStr txt (toLowerCase keyword)) ks)"
  by (simp add: countMatches_def countMatches_fold)

lemma keywordsPresent_Neutral: "keywordsPresent item Neutral = 0"
  by (simp add: keywordsPresent_def EMOTION_KEYWORDS_def)

lemma score_fold:
  "fold (scoreStep (toLowerCase (titleAndText item))) EMOTIONS (createEmptyDistribution, 0)
   = (\<lambda>e. real (keywordsPresent item e), \<Sum>e \<leftarrow> EMOTIONS. keywordsPresent item e)"
proof (intro prod_eqI ext)
  fix e
  show "fst (fold (scoreStep (toLowerCase (titleAndText item))) EMOTIONS (createEmptyDistribution, 0)) e
        = fst (\<lambda>e. real (keywordsPresent item e), \<Sum>e \<leftarrow> EMOTIONS. keywordsPresent item e) e"
    by (cases e)
       (simp_all add: EMOTIONS_def scoreStep_def countMatches_eq keywordsPresent_def [symmetric]
          keywordsPresent_Neutral Let_def)
next
  show "snd (fold (scoreStep (toLowerCase (titleAndText item))) EMOTIONS (createEmptyDistribution, 0))
        = snd (\<lambda>e. real (keywordsPresent item e), \<Sum>e \<leftarrow> EMOTIONS. keywordsPresent item e)"
    by (simp add: EMOTIONS_def scoreStep_def countMatches_eq keywordsPresent_def [symmetric]
          keywordsPresent_Neutral Let_def)
qed

lemma scoreItemEmotions_eq:
  "scoreItemEmotions item =
     (let total = (\<Sum>e \<leftarrow> EMOTIONS. keywordsPresent item e)
      in if total = 0 then neutralDistribution
         else (\<lambda>e. real (keywordsPresent item e) / real total))"
proof -
  define T where "T = (\<Sum>e \<leftarrow> EMOTIONS. keywordsPresent item e)"
  have T: "T = keywordsPresent item Anger + keywordsPresent item Anxiety
             + keywordsPresent item Sadness + keywordsPresent item Resilience
             + keywordsPresent item Hope + keywordsPresent item Excitement
             + keywordsPresent item Cynicism"
    by (simp add: T_def EMOTIONS_def keywordsPresent_Neutral)
  have f: "fold (scoreStep (toLowerCase (titleAndText item))) EMOTIONS (createEmptyDistribution, 0)
           = (\<lambda>e. real (keywordsPresent item e), T)"
    unfolding T_def by (rule score_fold)
  have s: "scoreItemEmotions item =
             (if T = 0 then normalizeDistribution ((\<lambda>e. real (keywordsPresent item e))(Neutral := 1))
              else normalizeDistribution (\<lambda>e. real (keywordsPresent item e)))"
    unfolding scoreItemEmotions_def Let_def f by simp
  have "scoreItemEmotions item =
          (if T = 0 then neutralDistribution else (\<lambda>e. real (keywordsPresent item e) / real T))"
  proof (cases "T = 0")
    case True
    then have z: "keywordsPresent item e = 0" for e
      using T keywordsPresent_Neutral [of item] by (cases e) simp_all
    have "normalizeDistribution ((\<lambda>e. real (keywordsPresent item e))(Neutral := 1)) = neutralDistribution"
      by (rule ext) (simp add: normalizeDistribution_apply sumValues_eq z neutralDistribution_def)
    with True s show ?thesis by simp
  next
    case False
    have "sumValues (\<lambda>e. real (keywordsPresent item e)) = real T"
      by (simp add: sumValues_eq T keywordsPresent_Neutral)
    then have "normalizeDistribution (\<lambda>e. real (keywordsPresent item e))
          = (\<lambda>e. real (keywordsPresent item e) / real T)"
      using False by (intro ext) (simp add: normalizeDistribution_apply)
    with False s show ?thesis by simp
  qed
  then show ?thesis by (simp add: Let_def T_def)
qed

lemma keywords_lower: "map toLowerCase (EMOTION_KEYWORDS e) = EMOTION_KEYWORDS e"
  by (cases e; hypsubst; code_simp)

lemma keyword_lower: "k \<in> set (EMOTION_KEYWORDS e) \<Longrightarrow> toLowerCase k = k"
  using keywords_lower [of e] by (metis map_eq_conv list.map_ident)

lemma keywordsPresent_lower:
  "keywordsPresent item e
   = length (filter (includesStr (toLowerCase (titleAndText item))) (EMOTION_KEYWORDS e))"
  unfolding keywordsPresent_def
  by (rule arg_cong [where f = length], rule filter_cong) (simp_all add: keyword_lower)

lemma rawScore_spec_lower:
  "rawScore_spec item e
   = (\<Sum>keyword \<leftarrow> EMOTION_KEYWORDS e. countOccurrences (toLowerCase (title item @ textOrEmpty item)) keyword)"
  unfolding rawScore_spec_def
  by (rule arg_cong [where f = sum_list], rule map_cong) (simp_all add: keyword_lower)

lemma repeatedKeywordItem_text:
  "toLowerCase (titleAndText repeatedKeywordItem) = ''angry angry hope ''"
  by code_simp

lemma repeatedKeywordItem_text_spec:
  "toLowerCase (title repeatedKeywordItem @ textOrEmpty repeatedKeywordItem) = ''angry angry hope''"
  by code_simp

lemma repeatedKeywordItem_present:
  "map (keywordsPresent repeatedKeywordItem) EMOTIONS = [1, 0, 0, 0, 1, 0, 0, 0]"
  unfolding keywordsPresent_lower repeatedKeywordItem_text by code_simp

lemma repeatedKeywordItem_occurrences:
  "map (rawScore_spec repeatedKeywordItem) EMOTIONS = [2, 0, 0, 0, 1, 0, 0, 0]"
  unfolding rawScore_spec_lower repeatedKeywordItem_text_spec by code_simp

lemma weatherItem_text:
  "toLowerCase (titleAndText weatherItem) = ''weather report sunny with clouds''"
  by code_simp

lemma weatherItem_present:
  "map (keywordsPresent weatherItem) EMOTIONS = [0, 0, 0, 0, 0, 0, 0, 0]"
  unfolding keywordsPresent_lower weatherItem_text by code_simp

text \<open>
  C5 as stated fails: in the title "Angry angry hope" the keyword "angry" occurs twice and
  "hope" once, so counting occurrences gives anger 2/3 and hope 1/3; the code counts each
  keyword once and returns 1/2 and 1/2.
\<close>

theorem C5_occurrences_counterexample:
  "scoreItemEmotions repeatedKeywordItem Anger = 1 / 2
   \<and> scoreItemEmotions_spec repeatedKeywordItem Anger = 2 / 3
   \<and> scoreItemEmotions repeatedKeywordItem \<noteq> scoreItemEmotions_spec repeatedKeywordItem"
proof -
  have p: "keywordsPresent repeatedKeywordItem Anger = 1"
    using repeatedKeywordItem_present by (simp add: EMOTIONS_def)
  have p': "(\<Sum>e \<leftarrow> EMOTIONS. keywordsPresent repeatedKeywordItem e) = 2"
    unfolding repeatedKeywordItem_present by simp
  have q: "rawScore_spec repeatedKeywordItem Anger = 2"
    using repeatedKeywordItem_occurrences by (simp add: EMOTIONS_def)
  have q': "(\<Sum>e \<leftarrow> EMOTIONS. rawScore_spec repeatedKeywordItem e) = 3"
    unfolding repeatedKeywordItem_occurrences by simp
  have a: "scoreItemEmotions repeatedKeywordItem Anger = 1 / 2"
    by (simp add: scoreItemEmotions_eq Let_def p p')
  have b: "scoreItemEmotions_spec repeatedKeywordItem Anger = 2 / 3"
    by (simp add: scoreItemEmotions_spec_def Let_def q q')
  have "scoreItemEmotions repeatedKeywordItem \<noteq> scoreItemEmotions_spec repeatedKeywordItem"
  proof
    assume "scoreItemEmotions repeatedKeywordItem = scoreItemEmotions_spec repeatedKeywordItem"
    then have "scoreItemEmotions repeatedKeywordItem Anger = scoreItemEmotions_spec repeatedKeywordItem Anger"
      by simp
    then show False unfolding a b by simp
  qed
  with a b show ?thesis by blast
qed

text \<open>
  C5, amended: for every item, the raw score of each of the 7 non-neutral categories is the
  number of that category's keywords that occur at least once, as case-insensitive
  substrings, in \<open>title + ' ' + text\<close>; if the total over all categories is 0 the result is
  the distribution with \<open>neutral = 1\<close>, and otherwise it is the raw scores divided by their
  total. An item that contains no configured emotion keyword receives \<open>neutral = 1\<close>.
\<close>

theorem C5_score_by_keywords_present:
  "scoreItemEmotions item =
     (let total = (\<Sum>e \<leftarrow> EMOTIONS. keywordsPresent item e)
      in if total = 0 then neutralDistribution
         else (\<lambda>e. real (keywordsPresent item e) / real total))
   \<and> keywordsPresent item Neutral = 0
   \<and> (list_all (\<lambda>e. keywordsPresent item e = 0) EMOTIONS
        \<longrightarrow> scoreItemEmotions item = neutralDistribution)"
proof -
  have "scoreItemEmotions item = neutralDistribution"
    if "list_all (\<lambda>e. keywordsPresent item e = 0) EMOTIONS"
    using that unfolding scoreItemEmotions_eq by (simp add: EMOTIONS_def)
  then show ?thesis
    using scoreItemEmotions_eq [of item] keywordsPresent_Neutral [of item] by blast
qed

theorem C5_score_by_keywords_present_witness:
  "list_all (\<lambda>e. keywordsPresent weatherItem e = 0) EMOTIONS
   \<and> scoreItemEmotions weatherItem = neutralDistribution
   \<and> scoreItemEmotions weatherItem Neutral = 1"
proof -
  have w: "list_all (\<lambda>e. keywordsPresent weatherItem e = 0) EMOTIONS"
    using weatherItem_present by (simp add: EMOTIONS_def)
  then have "scoreItemEmotions weatherItem = neutralDistribution"
    using C5_score_by_keywords_present [of weatherItem] by blast
  with w show ?thesis by (simp add: neutralDistribution_def)
qed

section \<open>The tension index\<close>

lemma pow2_powr: "pow2 k = 2 powr (of_int k)"
proof (cases "0 \<le> k")
  case True
  then have "2 powr (of_int k) = (2::real) powr (real (nat k))" by simp
  also have "\<dots> = 2 ^ nat k" by (simp add: powr_realpow)
  finally show ?thesis using True by (simp add: pow2_def)
next
  case False
  then have "(2::real) powr (of_int k) = 2 powr (- real (nat (- k)))" by simp
  also have "\<dots> = 1 / 2 ^ nat (- k)" by (simp add: powr_minus powr_realpow divide_inverse)
  finally show ?thesis using False by (simp add: pow2_def)
qed

lemma pow2_pos: "0 < pow2 k"
  by (simp add: pow2_def)

text \<open>The rounding of a number whose binary exponent is known.\<close>

lemma roundDouble_at:
  assumes "pow2 e \<le> \<bar>x\<bar>" and "\<bar>x\<bar> < pow2 (e + 1)" and "- 1022 \<le> e"
  shows "roundDouble x = of_int (roundHalfEven (x / pow2 (e - 52))) * pow2 (e - 52)"
proof -
  have pos: "0 < \<bar>x\<bar>" using assms(1) pow2_pos [of e] by linarith
  have "\<lfloor>log 2 \<bar>x\<bar>\<rfloor> = e"
    using assms(1,2) pos by (simp add: floor_log_eq_powr_iff pow2_powr)
  then have "binaryExponent x = e" using assms(3) by (simp add: binaryExponent_def)
  then show ?thesis using pos by (simp add: roundDouble_def Let_def)
qed

lemma roundDouble_0: "roundDouble 0 = 0"
  by (simp add: roundDouble_def)

lemma roundDouble_1: "roundDouble 1 = 1"
  using roundDouble_at [of 0 1] by (simp add: pow2_def roundHalfEven_def Let_def)

lemma roundDouble_100: "roundDouble 100 = 100"
  using roundDouble_at [of 6 100] by (simp add: pow2_def roundHalfEven_def Let_def)

lemma roundDouble_half: "roundDouble (1 / 2) = 1 / 2"
  using roundDouble_at [of "- 1" "1 / 2"] by (simp add: pow2_def roundHalfEven_def Let_def)

lemma roundDouble_quarter: "roundDouble (1 / 4) = 1 / 4"
  using roundDouble_at [of "- 2" "1 / 4"] by (simp add: pow2_def roundHalfEven_def Let_def)

lemma roundDouble_eighth: "roundDouble (1 / 8) = 1 / 8"
  using roundDouble_at [of "- 3" "1 / 8"] by (simp add: pow2_def roundHalfEven_def Let_def)

text \<open>The double of the literal 0.7 lies below 0.7.\<close>

lemma roundDouble_7_10: "roundDouble (7 / 10) = 3152519739159347 / 4503599627370496"
  using roundDouble_at [of "- 1" "7 / 10"] by (simp add: pow2_def roundHalfEven_def Let_def)

text \<open>
  The steps of the computation for sadness = resilience = 1/2: half the double of 0.7, the
  difference with 1/8 (both are doubles), and the product with 100, which has to be
  rounded and stays below 22.5.
\<close>

lemma sadHero_negativeScore:
  "roundDouble (3152519739159347 / 9007199254740992) = 3152519739159347 / 9007199254740992"
  using roundDouble_at [of "- 2" "3152519739159347 / 9007199254740992"]
  by (simp add: pow2_def roundHalfEven_def Let_def)

lemma sadHero_tension:
  "roundDouble (2026619832316723 / 9007199254740992) = 2026619832316723 / 9007199254740992"
  using roundDouble_at [of "- 3" "2026619832316723 / 9007199254740992"]
  by (simp add: pow2_def roundHalfEven_def Let_def)

lemma sadHero_scaled:
  "roundDouble (50665495807918075 / 2251799813685248) = 6333186975989759 / 281474976710656"
  using roundDouble_at [of 4 "50665495807918075 / 2251799813685248"]
  by (simp add: pow2_def roundHalfEven_def Let_def)

lemma calculateTensionIndex_sadHero: "calculateTensionIndex sadHero = 22"
  by (simp add: calculateTensionIndex_def EMOTION_WEIGHTS_def sadHero_def Let_def
      fadd_def fsub_def fmul_def roundDouble_0 roundDouble_1 roundDouble_100 roundDouble_7_10
      roundDouble_half roundDouble_quarter roundDouble_eighth
      sadHero_negativeScore sadHero_tension sadHero_scaled Math_round_def)

lemma tension_spec_sadHero: "tension_spec sadHero = 23"
  by (simp add: tension_spec_def sadHero_def Let_def Math_round_def)

lemma fmul_commute: "fmul x y = fmul y x"
  by (simp add: fmul_def mult.commute)

lemma calculateTensionIndex_in_doubles: "calculateTensionIndex e = tension_in_doubles e"
  by (simp add: calculateTensionIndex_def tension_in_doubles_def EMOTION_WEIGHTS_def Let_def
      fmul_commute [of _ "roundDouble 100"])

lemma calculateTensionIndex_allNeutral: "calculateTensionIndex allNeutral = 0"
  by (simp add: calculateTensionIndex_def EMOTION_WEIGHTS_def allNeutral_def Let_def
      fadd_def fsub_def fmul_def roundDouble_0 roundDouble_1 roundDouble_100 Math_round_def)

lemma calculateTensionIndex_allAnger: "calculateTensionIndex allAnger = 100"
  by (simp add: calculateTensionIndex_def EMOTION_WEIGHTS_def allAnger_def Let_def
      fadd_def fsub_def fmul_def roundDouble_0 roundDouble_1 roundDouble_100 Math_round_def)

lemma sadHeroItem_text: "toLowerCase (titleAndText sadHeroItem) = ''sad hero ''"
  by code_simp

lemma sadHeroItem_present:
  "map (keywordsPresent sadHeroItem) EMOTIONS = [0, 0, 1, 1, 0, 0, 0, 0]"
  unfolding keywordsPresent_lower sadHeroItem_text by code_simp

lemma scoreItemEmotions_sadHeroItem: "scoreItemEmotions sadHeroItem = sadHero"
proof -
  have p: "keywordsPresent sadHeroItem e = (if e = Sadness \<or> e = Resilience then 1 else 0)" for e
    using sadHeroItem_present by (cases e) (simp_all add: EMOTIONS_def)
  have t: "(\<Sum>e \<leftarrow> EMOTIONS. keywordsPresent sadHeroItem e) = 2"
    unfolding sadHeroItem_present by simp
  have s: "scoreItemEmotions sadHeroItem = (\<lambda>e. real (keywordsPresent sadHeroItem e) / 2)"
    unfolding scoreItemEmotions_eq Let_def t by simp
  show ?thesis
    unfolding s by (rule ext) (simp add: p sadHero_def)
qed

text \<open>
  The rounding error of one operation, for operands of the size that occurs in the tension
  index, and the error that has accumulated at each step of \<open>calculateTensionIndex\<close>.
\<close>

lemma roundHalfEven_error: "\<bar>of_int (roundHalfEven y) - y\<bar> \<le> 1 / 2"
proof -
  have "of_int \<lfloor>y\<rfloor> \<le> y" "y < of_int \<lfloor>y\<rfloor> + 1" by linarith+
  then show ?thesis by (auto simp: roundHalfEven_def Let_def)
qed

lemma pow2_mono: "j \<le> k \<Longrightarrow> pow2 j \<le> pow2 k"
  by (simp add: pow2_powr)

lemma roundDouble_error:
  assumes "\<bar>x\<bar> \<le> 1024"
  shows "\<bar>roundDouble x - x\<bar> \<le> 1 / 2 ^ 43"
proof (cases "x = 0")
  case True
  then show ?thesis by (simp add: roundDouble_def)
next
  case False
  define u where "u = pow2 (binaryExponent x - 52)"
  have u: "0 < u" by (simp add: u_def pow2_pos)
  have "log 2 \<bar>x\<bar> \<le> log 2 1024"
    using assms False by (simp del: log_le_cancel_iff add: log_le_cancel_iff [of 2 "\<bar>x\<bar>" 1024])
  also have "log 2 1024 = (10::real)"
    using log_pow_cancel [of 2 10] by simp
  finally have "\<lfloor>log 2 \<bar>x\<bar>\<rfloor> \<le> 10" by (simp add: floor_le_iff)
  then have "binaryExponent x - 52 \<le> - 42" by (simp add: binaryExponent_def)
  then have "u \<le> pow2 (- 42)" unfolding u_def by (rule pow2_mono)
  then have u42: "u \<le> 1 / 2 ^ 42" by (simp add: pow2_def)
  have "roundDouble x - x = (of_int (roundHalfEven (x / u)) - x / u) * u"
    using False u by (simp add: roundDouble_def Let_def u_def [symmetric] left_diff_distrib)
  then have "\<bar>roundDouble x - x\<bar> = \<bar>of_int (roundHalfEven (x / u)) - x / u\<bar> * u"
    using u by (simp add: abs_mult)
  also have "\<dots> \<le> 1 / 2 * u"
    using roundHalfEven_error [of "x / u"] u by (intro mult_right_mono) simp_all
  also have "\<dots> \<le> 1 / 2 ^ 43" using u42 by simp
  finally show ?thesis .
qed


lemma fadd_error:
  assumes "\<bar>x' - x\<bar> \<le> a" and "\<bar>y' - y\<bar> \<le> b" and "\<bar>x\<bar> + \<bar>y\<bar> + a + b \<le> 1024"
  shows "\<bar>fadd x' y' - (x + y)\<bar> \<le> a + b + 1 / 2 ^ 43"
proof -
  have "\<bar>x' + y'\<bar> \<le> 1024" using assms by linarith
  then have "\<bar>roundDouble (x' + y') - (x' + y')\<bar> \<le> 1 / 2 ^ 43" by (rule roundDouble_error)
  then show ?thesis using assms(1,2) unfolding fadd_def by linarith
qed

lemma fsub_error:
  assumes "\<bar>x' - x\<bar> \<le> a" and "\<bar>y' - y\<bar> \<le> b" and "\<bar>x\<bar> + \<bar>y\<bar> + a + b \<le> 1024"
  shows "\<bar>fsub x' y' - (x - y)\<bar> \<le> a + b + 1 / 2 ^ 43"
proof -
  have "\<bar>x' - y'\<bar> \<le> 1024" using assms by linarith
  then have "\<bar>roundDouble (x' - y') - (x' - y')\<bar> \<le> 1 / 2 ^ 43" by (rule roundDouble_error)
  then show ?thesis using assms(1,2) unfolding fsub_def by linarith
qed

lemma fmul_error:
  assumes "\<bar>x' - x\<bar> \<le> a" and "\<bar>y' - y\<bar> \<le> b" and "\<bar>x'\<bar> \<le> X" and "\<bar>y\<bar> \<le> Y"
    and "X * (Y + b) \<le> 1024"
  shows "\<bar>fmul x' y' - x * y\<bar> \<le> X * b + Y * a + 1 / 2 ^ 43"
proof -
  have a: "0 \<le> a" and b: "0 \<le> b" and X: "0 \<le> X" and Y: "0 \<le> Y"
    using assms(1-4) by linarith+
  have "\<bar>y'\<bar> \<le> Y + b" using assms(2,4) by linarith
  then have "\<bar>x'\<bar> * \<bar>y'\<bar> \<le> X * (Y + b)"
    using assms(3) by (intro mult_mono) simp_all
  then have "\<bar>x' * y'\<bar> \<le> 1024" using assms(5) by (simp add: abs_mult)
  then have r: "\<bar>roundDouble (x' * y') - x' * y'\<bar> \<le> 1 / 2 ^ 43" by (rule roundDouble_error)
  have "x' * y' - x * y = x' * (y' - y) + (x' - x) * y" by (simp add: algebra_simps)
  then have "\<bar>x' * y' - x * y\<bar> \<le> \<bar>x'\<bar> * \<bar>y' - y\<bar> + \<bar>x' - x\<bar> * \<bar>y\<bar>"
    by (metis abs_mult abs_triangle_ineq)
  also have "\<dots> \<le> X * b + a * Y"
    using assms(1-4) a b X Y by (intro add_mono mult_mono) simp_all
  finally have "\<bar>x' * y' - x * y\<bar> \<le> X * b + Y * a" by (simp add: mult.commute)
  then show ?thesis using r unfolding fmul_def by linarith
qed

lemma Math_round_close:
  assumes "\<bar>x - y\<bar> < 1"
  shows "\<bar>min 100 (Math_round x) - min 100 (Math_round y)\<bar> \<le> 1"
proof -
  have "\<bar>\<lfloor>x + 1 / 2\<rfloor> - \<lfloor>y + 1 / 2\<rfloor>\<bar> \<le> 1" using assms by linarith
  then show ?thesis unfolding Math_round_def by linarith
qed

lemma tension_within_one:
  assumes e: "\<And>em. 0 \<le> e em \<and> e em \<le> 1"
  shows "\<bar>calculateTensionIndex e - tension_spec e\<bar> \<le> 1"
proof -
  define d where "d = (1::real) / 2 ^ 43"
  have d: "0 < d" "d \<le> 1 / 1000000" by (simp_all add: d_def)
  have rd: "\<bar>roundDouble x - x\<bar> \<le> d" if "\<bar>x\<bar> \<le> 1024" for x
    unfolding d_def using that by (rule roundDouble_error)
  have add: "\<bar>fadd x' y' - (x + y)\<bar> \<le> a + b + d"
    if "\<bar>x' - x\<bar> \<le> a" "\<bar>y' - y\<bar> \<le> b" "\<bar>x\<bar> + \<bar>y\<bar> + a + b \<le> 1024" for x' x y' y a b
    unfolding d_def using that by (rule fadd_error)
  have sub: "\<bar>fsub x' y' - (x - y)\<bar> \<le> a + b + d"
    if "\<bar>x' - x\<bar> \<le> a" "\<bar>y' - y\<bar> \<le> b" "\<bar>x\<bar> + \<bar>y\<bar> + a + b \<le> 1024" for x' x y' y a b
    unfolding d_def using that by (rule fsub_error)
  have mul: "\<bar>fmul x' y' - x * y\<bar> \<le> X * b + Y * a + d"
    if "\<bar>x' - x\<bar> \<le> a" "\<bar>y' - y\<bar> \<le> b" "\<bar>x'\<bar> \<le> X" "\<bar>y\<bar> \<le> Y" "X * (Y + b) \<le> 1024"
    for x' x y' y a b X Y
    unfolding d_def using that by (rule fmul_error)
  have w: "\<bar>fmul v (roundDouble c) - v * c\<bar> \<le> 2 * d \<and> \<bar>v * c\<bar> \<le> 1"
    if "0 \<le> v \<and> v \<le> 1" "\<bar>c\<bar> \<le> 1" for v c
  proof
    have c: "\<bar>roundDouble c - c\<bar> \<le> d" using that(2) by (intro rd) simp
    have "\<bar>fmul v (roundDouble c) - v * c\<bar> \<le> 1 * d + 1 * 0 + d"
      using c that d by (intro mul) simp_all
    then show "\<bar>fmul v (roundDouble c) - v * c\<bar> \<le> 2 * d" by simp
    have "\<bar>v\<bar> * \<bar>c\<bar> \<le> 1 * 1" using that by (intro mult_mono) simp_all
    then show "\<bar>v * c\<bar> \<le> 1" by (simp add: abs_mult)
  qed
  define p1 where "p1 = e Anger * 1.0"
  define p2 where "p2 = e Anxiety * 1.0"
  define p3 where "p3 = e Sadness * 0.7"
  define p4 where "p4 = e Cynicism * 0.4"
  define q1 where "q1 = e Resilience * 0.5"
  define q2 where "q2 = e Hope * 0.7"
  define q3 where "q3 = e Excitement * 0.3"
  define p1' where "p1' = fmul (e Anger) (roundDouble 1.0)"
  define p2' where "p2' = fmul (e Anxiety) (roundDouble 1.0)"
  define p3' where "p3' = fmul (e Sadness) (roundDouble 0.7)"
  define p4' where "p4' = fmul (e Cynicism) (roundDouble 0.4)"
  define q1' where "q1' = fmul (e Resilience) (roundDouble 0.5)"
  define q2' where "q2' = fmul (e Hope) (roundDouble 0.7)"
  define q3' where "q3' = fmul (e Excitement) (roundDouble 0.3)"
  have p1: "\<bar>p1' - p1\<bar> \<le> 2 * d \<and> \<bar>p1\<bar> \<le> 1"
    unfolding p1_def p1'_def by (rule w [OF e]) simp
  have p2: "\<bar>p2' - p2\<bar> \<le> 2 * d \<and> \<bar>p2\<bar> \<le> 1"
    unfolding p2_def p2'_def by (rule w [OF e]) simp
  have p3: "\<bar>p3' - p3\<bar> \<le> 2 * d \<and> \<bar>p3\<bar> \<le> 1"
    unfolding p3_def p3'_def by (rule w [OF e]) simp
  have p4: "\<bar>p4' - p4\<bar> \<le> 2 * d \<and> \<bar>p4\<bar> \<le> 1"
    unfolding p4_def p4'_def by (rule w [OF e]) simp
  have q1: "\<bar>q1' - q1\<bar> \<le> 2 * d \<and> \<bar>q1\<bar> \<le> 1"
    unfolding q1_def q1'_def by (rule w [OF e]) simp
  have q2: "\<bar>q2' - q2\<bar> \<le> 2 * d \<and> \<bar>q2\<bar> \<le> 1"
    unfolding q2_def q2'_def by (rule w [OF e]) simp
  have q3: "\<bar>q3' - q3\<bar> \<le> 2 * d \<and> \<bar>q3\<bar> \<le> 1"
    unfolding q3_def q3'_def by (rule w [OF e]) simp
  define neg where "neg = p1 + p2 + p3 + p4"
  define pos where "pos = q1 + q2 + q3"
  define neg' where "neg' = fadd (fadd (fadd p1' p2') p3') p4'"
  define pos' where "pos' = fadd (fadd q1' q2') q3'"
  have s1: "\<bar>fadd p1' p2' - (p1 + p2)\<bar> \<le> 2 * d + 2 * d + d"
    using p1 p2 d by (intro add) linarith+
  have s2: "\<bar>fadd (fadd p1' p2') p3' - (p1 + p2 + p3)\<bar> \<le> (2 * d + 2 * d + d) + 2 * d + d"
    using s1 p1 p2 p3 d by (intro add) linarith+
  have "\<bar>fadd (fadd (fadd p1' p2') p3') p4' - (p1 + p2 + p3 + p4)\<bar>
          \<le> ((2 * d + 2 * d + d) + 2 * d + d) + 2 * d + d"
    using s2 p1 p2 p3 p4 d by (intro add) linarith+
  then have neg: "\<bar>neg' - neg\<bar> \<le> 11 * d" by (simp add: neg_def neg'_def)
  have neg4: "\<bar>neg\<bar> \<le> 4" using p1 p2 p3 p4 unfolding neg_def by linarith
  have t1: "\<bar>fadd q1' q2' - (q1 + q2)\<bar> \<le> 2 * d + 2 * d + d"
    using q1 q2 d by (intro add) linarith+
  have "\<bar>fadd (fadd q1' q2') q3' - (q1 + q2 + q3)\<bar> \<le> (2 * d + 2 * d + d) + 2 * d + d"
    using t1 q1 q2 q3 d by (intro add) linarith+
  then have pos: "\<bar>pos' - pos\<bar> \<le> 8 * d" by (simp add: pos_def pos'_def)
  have pos3: "\<bar>pos\<bar> \<le> 3" using q1 q2 q3 unfolding pos_def by linarith
  have f: "\<bar>roundDouble 0.5 - 0.5\<bar> \<le> d" by (rule rd) simp
  have pos4: "\<bar>pos'\<bar> \<le> 4" using pos pos3 d by linarith
  have "\<bar>fmul pos' (roundDouble 0.5) - pos * 0.5\<bar> \<le> 4 * d + 1 * (8 * d) + d"
    using pos f pos4 d by (intro mul) simp_all
  then have m: "\<bar>fmul pos' (roundDouble 0.5) - pos * 0.5\<bar> \<le> 13 * d" by simp
  have m': "\<bar>pos * 0.5\<bar> \<le> 3" using pos3 by simp
  define dif where "dif = neg - pos * 0.5"
  define dif' where "dif' = fsub neg' (fmul pos' (roundDouble 0.5))"
  have "\<bar>fsub neg' (fmul pos' (roundDouble 0.5)) - (neg - pos * 0.5)\<bar> \<le> 11 * d + 13 * d + d"
    using neg neg4 m m' d by (intro sub) linarith+
  then have dif: "\<bar>dif' - dif\<bar> \<le> 25 * d" by (simp add: dif_def dif'_def)
  have dif7: "\<bar>dif\<bar> \<le> 7" using neg4 m' unfolding dif_def by linarith
  have t: "\<bar>max 0 dif' - max 0 dif\<bar> \<le> 25 * d" "\<bar>max 0 dif'\<bar> \<le> 8"
    using dif dif7 d by linarith+
  have h: "\<bar>roundDouble 100 - 100\<bar> \<le> d" by (rule rd) simp
  have "\<bar>fmul (max 0 dif') (roundDouble 100) - max 0 dif * 100\<bar> \<le> 8 * d + 100 * (25 * d) + d"
    using t h d by (intro mul) simp_all
  then have close: "\<bar>fmul (max 0 dif') (roundDouble 100) - 100 * max 0 dif\<bar> < 1"
    using d by (simp add: mult.commute)
  have c: "calculateTensionIndex e = min 100 (Math_round (fmul (max 0 dif') (roundDouble 100)))"
    by (simp add: calculateTensionIndex_def EMOTION_WEIGHTS_def Let_def dif'_def neg'_def pos'_def
        p1'_def p2'_def p3'_def p4'_def q1'_def q2'_def q3'_def)
  have s: "tension_spec e = min 100 (Math_round (100 * max 0 dif))"
    by (simp add: tension_spec_def Let_def dif_def neg_def pos_def
        p1_def p2_def p3_def p4_def q1_def q2_def q3_def)
  show ?thesis unfolding c s using close by (rule Math_round_close)
qed

text \<open>
  C2 as stated fails when its formula is read in exact arithmetic. The item "Sad hero" has
  the distribution sadness = resilience = 1/2, for which the formula gives
  100 * (0.5 * 0.7 - 0.5 * 0.5 * 0.5) = 22.5, rounded to 23. The code computes with doubles:
  the double of 0.7 lies below 0.7, the product with 100 is rounded to a double below 22.5,
  and \<open>calculateTensionIndex\<close> returns 22.
\<close>

theorem C2_exact_arithmetic_counterexample:
  "scoreItemEmotions sadHeroItem = sadHero
   \<and> calculateTensionIndex sadHero = 22
   \<and> tension_spec sadHero = 23"
  using scoreItemEmotions_sadHeroItem calculateTensionIndex_sadHero tension_spec_sadHero
  by (intro conjI)

text \<open>
  C2, amended: for every emotion distribution \<open>calculateTensionIndex\<close> returns
  min(100, round(100 * max(0, negativeScore - positiveScore * 0.5))) with the weights 1.0,
  1.0, 0.7, 0.4 for anger, anxiety, sadness, cynicism and 0.5, 0.7, 0.3 for resilience, hope,
  excitement, where every constant, product, sum and difference is rounded to a double and
  the sums are taken from left to right; for a distribution with values between 0 and 1
  this is within 1 of the value of the formula in exact arithmetic. The all-neutral
  distribution gives 0 and the distribution with anger = 1 gives a value that is at most
  100 and greater than 50.
\<close>

theorem C2_tension_in_doubles:
  "calculateTensionIndex e = tension_in_doubles e
   \<and> (list_all (\<lambda>em. 0 \<le> e em \<and> e em \<le> 1) EMOTIONS
        \<longrightarrow> \<bar>calculateTensionIndex e - tension_spec e\<bar> \<le> 1)
   \<and> calculateTensionIndex allNeutral = 0
   \<and> calculateTensionIndex allAnger \<le> 100
   \<and> 50 < calculateTensionIndex allAnger"
proof -
  have "\<bar>calculateTensionIndex e - tension_spec e\<bar> \<le> 1"
    if "list_all (\<lambda>em. 0 \<le> e em \<and> e em \<le> 1) EMOTIONS"
  proof (rule tension_within_one)
    fix em
    show "0 \<le> e em \<and> e em \<le> 1"
      using that by (cases em) (simp_all add: EMOTIONS_def)
  qed
  then show ?thesis
    using calculateTensionIndex_in_doubles [of e] calculateTensionIndex_allNeutral
    by (simp add: calculateTensionIndex_allAnger)
qed

theorem C2_tension_in_doubles_witness:
  "list_all (\<lambda>em. 0 \<le> sadHero em \<and> sadHero em \<le> 1) EMOTIONS
   \<and> \<bar>calculateTensionIndex sadHero - tension_spec sadHero\<bar> \<le> 1
   \<and> calculateTensionIndex sadHero = tension_in_doubles sadHero
   \<and> tension_in_doubles sadHero = 22"
proof -
  have r: "list_all (\<lambda>em. 0 \<le> sadHero em \<and> sadHero em \<le> 1) EMOTIONS"
    by (simp add: sadHero_def EMOTIONS_def)
  note t = C2_tension_in_doubles [of sadHero]
  have a: "calculateTensionIndex sadHero = tension_in_doubles sadHero"
    by (rule t [THEN conjunct1])
  have b: "\<bar>calculateTensionIndex sadHero - tension_spec sadHero\<bar> \<le> 1"
    using t [THEN conjunct2, THEN conjunct1] r by (rule mp)
  have c: "tension_in_doubles sadHero = 22"
    using a calculateTensionIndex_sadHero by simp
  show ?thesis using r b a c by (intro conjI) assumption+
qed

section \<open>Dependence on the clock\<close>

lemma ln_2_bounds: "1 / 2 < ln (2::real)" "ln (2::real) < 1"
proof -
  have "exp (1 / 2 :: real) ^ 2 = exp 1"
    by (simp add: exp_double [symmetric])
  also have "\<dots> \<le> 3" by (rule exp_le)
  finally have "exp (1 / 2 :: real) ^ 2 < 2 ^ 2" by simp
  then have "exp (1 / 2 :: real) < 2"
    by (rule power2_less_imp_less) simp
  then show "1 / 2 < ln (2::real)"
    by (metis exp_less_cancel_iff exp_ln zero_less_numeral)
  show "ln (2::real) < 1" by (rule ln_2_less_1)
qed

lemma Math_exp_0: "Math_exp 0 = 1"
  using ln_2_bounds(1) by (simp add: Math_exp_def)

lemma Math_exp_recent: "- 500 \<le> x \<Longrightarrow> Math_exp x = exp x"
  using ln_2_bounds(1) by (simp add: Math_exp_def)

lemma Math_exp_underflow: "x \<le> - 1075 \<Longrightarrow> Math_exp x = 0"
  using ln_2_bounds(2) by (simp add: Math_exp_def)

lemma recencyWeight_delayed:
  "recencyWeight (now + d) (createdAt (delayed d item)) h = recencyWeight now (createdAt item) h"
  by (simp add: recencyWeight_def delayed_def)

lemma scoreItemEmotions_delayed: "scoreItemEmotions (delayed d item) = scoreItemEmotions item"
  by (simp add: scoreItemEmotions_def titleAndText_def textOrEmpty_def delayed_def)

lemma aggregateStep_delayed:
  "aggregateStep (now + d) (delayed d item) st = aggregateStep now item st"
proof -
  have "itemWeight (now + d) (delayed d item) = itemWeight now item"
    by (simp add: itemWeight_def recencyWeight_delayed) (simp add: delayed_def relevanceOrDefault_def)
  moreover have "isDuplicate (delayed d item) = isDuplicate item"
    by (simp add: isDuplicate_def delayed_def)
  ultimately show ?thesis
    by (simp add: aggregateStep_def scoreItemEmotions_delayed)
qed

lemma aggregate_fold_delayed:
  "fold (aggregateStep (now + d)) (map (delayed d) items) st = fold (aggregateStep now) items st"
  by (induction items arbitrary: st) (simp_all add: aggregateStep_delayed)

lemma aggregateEmotions_delayed:
  "aggregateEmotions (now + d) (map (delayed d) items) = aggregateEmotions now items"
  by (simp add: aggregateEmotions_def aggregate_fold_delayed)

lemma calculateClusterWeight_fold_delayed:
  "fold (\<lambda>item weight.
             (let recency = recencyWeight (now + d) (createdAt item) 6;
                  eng = log 10 (capEngagement (engagement item) 1000 + 2);
                  relevance = relevanceOrDefault item
              in weight + recency * eng * relevance)) (map (delayed d) items) w
   = fold (\<lambda>item weight.
             (let recency = recencyWeight now (createdAt item) 6;
                  eng = log 10 (capEngagement (engagement item) 1000 + 2);
                  relevance = relevanceOrDefault item
              in weight + recency * eng * relevance)) items w"
proof (induction items arbitrary: w)
  case Nil
  show ?case by simp
next
  case (Cons item items)
  have "engagement (delayed d item) = engagement item"
    "relevanceOrDefault (delayed d item) = relevanceOrDefault item"
    by (simp_all add: delayed_def relevanceOrDefault_def)
  then show ?case using Cons.IH by (simp add: Let_def recencyWeight_delayed)
qed

lemma calculateClusterWeight_delayed:
  "calculateClusterWeight (now + d) (map (delayed d) items) = calculateClusterWeight now items"
  unfolding calculateClusterWeight_def by (rule calculateClusterWeight_fold_delayed)

lemma angryItem_text: "toLowerCase (titleAndText angryItem) = ''angry news outrage''"
  by code_simp

lemma angryItem_present:
  "map (keywordsPresent angryItem) EMOTIONS = [3, 0, 0, 0, 0, 0, 0, 0]"
  unfolding keywordsPresent_lower angryItem_text by code_simp

lemma scoreItemEmotions_angryItem: "scoreItemEmotions angryItem = allAnger"
proof -
  have p: "keywordsPresent angryItem e = (if e = Anger then 3 else 0)" for e
    using angryItem_present by (cases e) (simp_all add: EMOTIONS_def)
  have t: "(\<Sum>e \<leftarrow> EMOTIONS. keywordsPresent angryItem e) = 3"
    unfolding angryItem_present by simp
  have s: "scoreItemEmotions angryItem = (\<lambda>e. real (keywordsPresent angryItem e) / 3)"
    unfolding scoreItemEmotions_eq Let_def t by simp
  show ?thesis
    unfolding s by (rule ext) (simp add: p allAnger_def)
qed

lemma itemWeight_angryItem_fresh: "itemWeight 0 angryItem = 4 / 5"
  by (simp add: itemWeight_def angryItem_def createMockItem_def recencyWeight_def
      capEngagement_def relevanceOrDefault_def Let_def Math_exp_0)

lemma itemWeight_angryItem_old: "itemWeight 34560000000 angryItem = 0"
  by (simp add: itemWeight_def angryItem_def createMockItem_def recencyWeight_def
      capEngagement_def relevanceOrDefault_def Let_def Math_exp_underflow)

lemma aggregateEmotions_angryItem_fresh: "aggregateEmotions 0 [angryItem] Anger = 1"
proof -
  have d: "\<not> isDuplicate angryItem"
    by (simp add: isDuplicate_def angryItem_def createMockItem_def)
  show ?thesis
    by (simp add: aggregateEmotions_def aggregateStep_def d itemWeight_angryItem_fresh
        scoreItemEmotions_angryItem allAnger_def EMOTIONS_def normalizeDistribution_apply
        sumValues_eq Let_def)
qed

lemma aggregateEmotions_angryItem_old:
  "aggregateEmotions 34560000000 [angryItem] = neutralDistribution"
proof -
  have d: "\<not> isDuplicate angryItem"
    by (simp add: isDuplicate_def angryItem_def createMockItem_def)
  have "totalWeight 34560000000 [angryItem] = 0"
    by (simp add: totalWeight_def d itemWeight_angryItem_old)
  then show ?thesis by (rule aggregate_zero_weight)
qed

lemma calculateClusterWeight_angryItem_fresh: "calculateClusterWeight 0 [angryItem] = 4 / 5"
  by (simp add: calculateClusterWeight_def angryItem_def createMockItem_def recencyWeight_def
      capEngagement_def relevanceOrDefault_def Let_def Math_exp_0)

lemma calculateClusterWeight_angryItem_later:
  "calculateClusterWeight 21600000 [angryItem] = exp (- 0.693) * (4 / 5)"
  by (simp add: calculateClusterWeight_def angryItem_def createMockItem_def recencyWeight_def
      capEngagement_def relevanceOrDefault_def Let_def Math_exp_recent)

text \<open>
  C4 as stated fails: \<open>recencyWeight\<close> reads the clock, so both functions depend on it. The
  weight of a cluster computed six hours later from the same item is smaller; and the
  aggregated emotions of the same item are anger = 1 at its creation time, and
  neutral = 1 (anger = 0) 400 days later, when its recency weight has underflowed to 0.
\<close>

theorem C4_clock_counterexample:
  "calculateClusterWeight 0 [angryItem] = 4 / 5
   \<and> calculateClusterWeight 21600000 [angryItem] = exp (- 0.693) * (4 / 5)
   \<and> calculateClusterWeight 21600000 [angryItem] < calculateClusterWeight 0 [angryItem]
   \<and> aggregateEmotions 0 [angryItem] Anger = 1
   \<and> aggregateEmotions 34560000000 [angryItem] Anger = 0"
proof -
  have "exp (- 0.693 :: real) < 1" by simp
  then have "calculateClusterWeight 21600000 [angryItem] < calculateClusterWeight 0 [angryItem]"
    by (simp add: calculateClusterWeight_angryItem_fresh calculateClusterWeight_angryItem_later)
  moreover have "aggregateEmotions 34560000000 [angryItem] Anger = 0"
    by (simp add: aggregateEmotions_angryItem_old neutralDistribution_def)
  ultimately show ?thesis
    using calculateClusterWeight_angryItem_fresh calculateClusterWeight_angryItem_later
      aggregateEmotions_angryItem_fresh
    by (intro conjI)
qed

text \<open>
  C4, amended: with the clock reading made an explicit input, \<open>aggregateEmotions\<close> and the
  cluster weight depend on the clock only through the ages of the items. Two calls give
  identical outputs when the items of the second call are those of the first with every
  creation time moved by as much as the clock reading: in particular two calls at the same
  clock reading on identical item lists.
\<close>

theorem C4_same_ages_same_outputs:
  "aggregateEmotions (now + d) (map (delayed d) items) = aggregateEmotions now items
   \<and> calculateClusterWeight (now + d) (map (delayed d) items) = calculateClusterWeight now items"
  using aggregateEmotions_delayed [of now d items] calculateClusterWeight_delayed [of now d items]
  by (rule conjI)

section \<open>Cosine similarity\<close>

lemma cosine_fold:
  "fold (cosineStep a b) [0..<n] (d, na, nb)
   = (d + (\<Sum>i<n. a ! i * b ! i), na + (\<Sum>i<n. a ! i * a ! i), nb + (\<Sum>i<n. b ! i * b ! i))"
  by (induction n) (simp_all add: cosineStep_def)

lemma normSq_nth: "normSq v = (\<Sum>i<length v. v ! i * v ! i)"
proof -
  have "normSq v = sum_list (map (\<lambda>x. x * x) v)" by (simp add: normSq_def)
  also have "\<dots> = (\<Sum>i = 0..<length v. map (\<lambda>x. x * x) v ! i)"
    by (simp add: sum_list_sum_nth)
  also have "\<dots> = (\<Sum>i<length v. v ! i * v ! i)"
    by (rule sum.cong) (auto simp: atLeast0LessThan)
  finally show ?thesis .
qed

lemma dotProd_nth:
  assumes "length a = length b"
  shows "dotProd a b = (\<Sum>i<length a. a ! i * b ! i)"
proof -
  have "dotProd a b = sum_list (map (\<lambda>(x, y). x * y) (zip a b))" by (simp add: dotProd_def)
  also have "\<dots> = (\<Sum>i = 0..<length (zip a b). map (\<lambda>(x, y). x * y) (zip a b) ! i)"
    by (simp add: sum_list_sum_nth)
  also have "\<dots> = (\<Sum>i<length a. a ! i * b ! i)"
    using assms by (intro sum.cong) (auto simp: atLeast0LessThan)
  finally show ?thesis .
qed

lemma normSq_nonneg: "0 \<le> normSq v"
  unfolding normSq_def by (induction v) simp_all

lemma cosineSimilarity_eq:
  "cosineSimilarity a b =
     (if length a \<noteq> length b then Inr 0
      else if normSq a = 0 \<or> normSq b = 0 then Inr 0
      else js_divide (dotProd a b) (sqrt (normSq a) * sqrt (normSq b)))"
  by (simp add: cosineSimilarity_def cosine_fold normSq_nth dotProd_nth)

lemma cosine_divisor_nonzero:
  "normSq a \<noteq> 0 \<Longrightarrow> normSq b \<noteq> 0 \<Longrightarrow> sqrt (normSq a) * sqrt (normSq b) \<noteq> 0"
  by simp

text \<open>
  C9: \<open>cosineSimilarity\<close> is total and never divides by zero: for every pair of vectors
  the result is a number; if either vector has zero norm the result is 0; and when both
  norms are nonzero (and the lengths agree) the divisor is nonzero and the result is the
  quotient.
\<close>

theorem C9_cosine_total:
  "cosineSimilarity a b \<noteq> Inl NotFinite
   \<and> (normSq a = 0 \<or> normSq b = 0 \<longrightarrow> cosineSimilarity a b = Inr 0)
   \<and> (length a = length b \<and> normSq a \<noteq> 0 \<and> normSq b \<noteq> 0 \<longrightarrow>
        sqrt (normSq a) * sqrt (normSq b) \<noteq> 0
        \<and> cosineSimilarity a b = Inr (dotProd a b / (sqrt (normSq a) * sqrt (normSq b))))"
  by (simp add: cosineSimilarity_eq js_divide_def)

theorem C9_cosine_total_witness:
  "normSq [0, 0] = 0 \<and> cosineSimilarity [0, 0] [1, 2] = Inr 0
   \<and> cosineSimilarity [3, 4] [0, 0] = Inr 0
   \<and> normSq [3, 4] \<noteq> 0 \<and> normSq [4, 3] \<noteq> 0
   \<and> cosineSimilarity [3, 4] [4, 3] = Inr (24 / 25)"
proof -
  have n: "normSq [0, 0] = 0" "normSq [3, 4] = 25" "normSq [4, 3] = 25" "dotProd [3, 4] [4, 3] = 24"
    by (simp_all add: normSq_def dotProd_def)
  have s: "sqrt 25 = 5" using real_sqrt_abs2 [of 5] by simp
  show ?thesis
    using C9_cosine_total [of "[0, 0]" "[1, 2]"] C9_cosine_total [of "[3, 4]" "[0, 0]"]
      C9_cosine_total [of "[3, 4]" "[4, 3]"]
    by (simp add: n s)
qed

section \<open>Greedy clustering is a partition\<close>

lemma index_inner_fold:
  "distinct js \<Longrightarrow>
   fold (indexInnerStep vs th i) js (c, asg)
   = (c @ filter (\<lambda>j. j \<notin> asg \<and> similarAt vs th i j) js,
      asg \<union> set (filter (\<lambda>j. j \<notin> asg \<and> similarAt vs th i j) js))"
proof (induction js arbitrary: c asg)
  case Nil
  show ?case by simp
next
  case (Cons j js)
  then have j: "j \<notin> set js" and d: "distinct js" by simp_all
  have same: "filter (\<lambda>k. k \<notin> insert j asg \<and> similarAt vs th i k) js
              = filter (\<lambda>k. k \<notin> asg \<and> similarAt vs th i k) js"
    using j by (intro filter_cong) auto
  show ?case
    using Cons.IH [OF d] same by (auto simp: indexInnerStep_def)
qed

lemma cluster_inner_fold:
  "fold (clusterInnerStep vs th i) js (map ((!) vs) c, asg)
   = (map ((!) vs) (fst (fold (indexInnerStep vs th i) js (c, asg))),
      snd (fold (indexInnerStep vs th i) js (c, asg)))"
proof (induction js arbitrary: c asg)
  case Nil
  show ?case by simp
next
  case (Cons j js)
  show ?case
    using Cons.IH [of c asg] Cons.IH [of "c @ [j]" "insert j asg"]
    by (simp add: clusterInnerStep_def indexInnerStep_def)
qed

lemma cluster_outer_step:
  "clusterOuterStep vs th i (map (map ((!) vs)) cs, asg)
   = (map (map ((!) vs)) (fst (indexOuterStep vs th i (cs, asg))),
      snd (indexOuterStep vs th i (cs, asg)))"
  using cluster_inner_fold [of vs th i "[i + 1..<length vs]" "[i]" "insert i asg"]
  by (simp add: clusterOuterStep_def indexOuterStep_def split: prod.splits)

lemma cluster_outer_fold:
  "fold (clusterOuterStep vs th) is (map (map ((!) vs)) cs, asg)
   = (map (map ((!) vs)) (fst (fold (indexOuterStep vs th) is (cs, asg))),
      snd (fold (indexOuterStep vs th) is (cs, asg)))"
proof (induction "is" arbitrary: cs asg)
  case Nil
  show ?case by simp
next
  case (Cons i "is")
  show ?case
    using Cons.IH [of "fst (indexOuterStep vs th i (cs, asg))" "snd (indexOuterStep vs th i (cs, asg))"]
    by (simp add: cluster_outer_step)
qed

lemma clusterBySimilarity_indices:
  "clusterBySimilarity vs th = map (map ((!) vs)) (clusterIndices vs th)"
  using cluster_outer_fold [of vs th "[0..<length vs]" "[]" "{}"]
  by (simp add: clusterBySimilarity_def clusterIndices_def)

lemma index_outer_step_inv:
  assumes "clusterInv vs th k st" "k < length vs"
  shows "clusterInv vs th (Suc k) (indexOuterStep vs th k st)"
proof (cases "k \<in> snd st")
  case True
  have "{..<Suc k} = insert k {..<k}" by auto
  with True assms show ?thesis
    by (auto simp: clusterInv_def indexOuterStep_def list_all_iff less_Suc_eq)
next
  case False
  obtain cs asg where st: "st = (cs, asg)" by (cases st)
  define ns where "ns = filter (\<lambda>j. j \<notin> insert k asg \<and> similarAt vs th k j) [k + 1..<length vs]"
  have step: "indexOuterStep vs th k st = (cs @ [k # ns], insert k asg \<union> set ns)"
    using False by (simp add: st indexOuterStep_def index_inner_fold ns_def)
  have ns_fresh: "set ns \<inter> asg = {}" "k \<notin> set ns" "\<forall>j\<in>set ns. k < j \<and> j < length vs"
    by (auto simp: ns_def)
  have ns_sorted: "sorted_wrt (<) ns" "distinct ns"
    unfolding ns_def by (simp_all add: sorted_wrt_filter strict_sorted_iff [symmetric] sorted_wrt_upt)
  have ns_similar: "list_all (similarAt vs th k) ns"
    by (simp add: ns_def list_all_iff)
  from assms st have "clusterInv vs th k (cs, asg)" by simp
  then have inv:
    "asg = set (concat cs)" "distinct (concat cs)" "{..<k} \<subseteq> asg" "asg \<subseteq> {..<length vs}"
    "list_all (seededCluster vs th) cs" "sorted_wrt (<) (map hd cs)" "list_all (\<lambda>c. hd c < k) cs"
    unfolding clusterInv_def fst_conv snd_conv by blast+
  have 1: "insert k asg \<union> set ns = set (concat (cs @ [k # ns]))"
    using inv(1) by auto
  have 2: "distinct (concat (cs @ [k # ns]))"
    using inv(1,2) ns_fresh ns_sorted(2) False st by auto
  have 3: "{..<Suc k} \<subseteq> insert k asg \<union> set ns"
    using inv(3) by (auto simp: less_Suc_eq)
  have 4: "insert k asg \<union> set ns \<subseteq> {..<length vs}"
    using inv(4) ns_fresh(3) assms(2) by auto
  have 5: "list_all (seededCluster vs th) (cs @ [k # ns])"
    using inv(5) ns_sorted(1) ns_similar ns_fresh(3) by (simp add: seededCluster_def)
  have 6: "sorted_wrt (<) (map hd (cs @ [k # ns]))"
    using inv(6,7) by (auto simp: sorted_wrt_append list_all_iff)
  have 7: "list_all (\<lambda>c. hd c < Suc k) (cs @ [k # ns])"
    using inv(7) by (auto simp: list_all_iff less_Suc_eq)
  show ?thesis
    unfolding clusterInv_def step using 1 2 3 4 5 6 7 by simp
qed

lemma index_outer_fold_inv:
  "k \<le> length vs \<Longrightarrow> clusterInv vs th k (fold (indexOuterStep vs th) [0..<k] ([], {}))"
proof (induction k)
  case 0
  show ?case by (simp add: clusterInv_def)
next
  case (Suc k)
  then show ?case by (simp add: index_outer_step_inv)
qed

lemma clusterIndices_inv:
  "clusterInv vs th (length vs) (fold (indexOuterStep vs th) [0..<length vs] ([], {}))"
  by (rule index_outer_fold_inv) simp

lemma clusterIndices_partition:
  "distinct (concat (clusterIndices vs th))"
  "set (concat (clusterIndices vs th)) = {..<length vs}"
  "list_all (seededCluster vs th) (clusterIndices vs th)"
  "sorted_wrt (<) (map hd (clusterIndices vs th))"
proof -
  define st where "st = fold (indexOuterStep vs th) [0..<length vs] ([], {})"
  have inv: "clusterInv vs th (length vs) st"
    unfolding st_def by (rule clusterIndices_inv)
  have c: "clusterIndices vs th = fst st"
    by (simp add: clusterIndices_def st_def)
  from inv have "snd st = {..<length vs}" "snd st = set (concat (fst st))"
    unfolding clusterInv_def by blast+
  then show "set (concat (clusterIndices vs th)) = {..<length vs}"
    unfolding c by metis
  from inv show "distinct (concat (clusterIndices vs th))"
    "list_all (seededCluster vs th) (clusterIndices vs th)"
    "sorted_wrt (<) (map hd (clusterIndices vs th))"
    unfolding c clusterInv_def by blast+
qed

lemma clusterIndices_mset: "mset (concat (clusterIndices vs th)) = mset [0..<length vs]"
proof -
  have "set (concat (clusterIndices vs th)) = set [0..<length vs]"
    unfolding clusterIndices_partition(2) by (simp add: atLeast0LessThan)
  then show ?thesis
    using clusterIndices_partition(1) [of vs th] distinct_upt [of 0 "length vs"]
    by (rule_tac set_eq_iff_mset_eq_distinct [THEN iffD1])
qed

lemma clusterBySimilarity_mset: "mset (concat (clusterBySimilarity vs th)) = mset vs"
proof -
  have "concat (clusterBySimilarity vs th) = map ((!) vs) (concat (clusterIndices vs th))"
    by (simp add: clusterBySimilarity_indices map_concat)
  then have "mset (concat (clusterBySimilarity vs th)) = image_mset ((!) vs) (mset [0..<length vs])"
    by (simp add: clusterIndices_mset)
  also have "\<dots> = mset (map ((!) vs) [0..<length vs])" by simp
  also have "\<dots> = mset vs" by (simp add: map_nth)
  finally show ?thesis .
qed

text \<open>
  C10: \<open>clusterBySimilarity\<close> partitions its input. The clusters are the vectors at the
  positions listed by \<open>clusterIndices\<close>; every position of the input occurs in exactly
  one cluster (no position twice, all positions covered, so the clusters together hold the
  input vectors with their multiplicities); every cluster is non-empty, starts with its
  seed, lists its members in input order, and each later member is similar to the seed.
\<close>

theorem C10_clusters_partition:
  "clusterBySimilarity vs th = map (map ((!) vs)) (clusterIndices vs th)
   \<and> distinct (concat (clusterIndices vs th))
   \<and> set (concat (clusterIndices vs th)) = {..<length vs}
   \<and> mset (concat (clusterBySimilarity vs th)) = mset vs
   \<and> list_all (seededCluster vs th) (clusterIndices vs th)
   \<and> sorted_wrt (<) (map hd (clusterIndices vs th))
   \<and> list_all (\<lambda>c. c \<noteq> []) (clusterBySimilarity vs th)"
proof -
  have "list_all (\<lambda>c. c \<noteq> []) (clusterIndices vs th)"
    using clusterIndices_partition(3) [of vs th] by (simp add: list_all_iff seededCluster_def)
  then have "list_all (\<lambda>c. c \<noteq> []) (clusterBySimilarity vs th)"
    by (simp add: clusterBySimilarity_indices list_all_iff)
  then show ?thesis
    using clusterBySimilarity_indices [of vs th] clusterIndices_partition [of vs th]
      clusterBySimilarity_mset [of vs th]
    by blast
qed

lemma indexOuterStep_eq:
  "indexOuterStep vs th i (cs, asg) =
     (if i \<in> asg then (cs, asg)
      else (cs @ [i # filter (\<lambda>j. j \<notin> insert i asg \<and> similarAt vs th i j) [i + 1..<length vs]],
            insert i asg \<union> set (filter (\<lambda>j. j \<notin> insert i asg \<and> similarAt vs th i j) [i + 1..<length vs])))"
  by (simp add: indexOuterStep_def index_inner_fold)

lemma exampleVectors_similar:
  "similarAt exampleVectors (1 / 4) 0 2" "\<not> similarAt exampleVectors (1 / 4) 0 1"
  by (simp_all add: similarAt_def exampleVectors_def cosineSimilarity_eq normSq_def dotProd_def
        js_divide_def)

lemma exampleVectors_indices: "clusterIndices exampleVectors (1 / 4) = [[0, 2], [1]]"
proof -
  have l: "length exampleVectors = 3" by (simp add: exampleVectors_def)
  have s: "similarAt exampleVectors (1 / 4) 0 (Suc (Suc 0))" "\<not> similarAt exampleVectors (1 / 4) 0 (Suc 0)"
    using exampleVectors_similar by (simp_all add: numeral_2_eq_2)
  show ?thesis
    unfolding clusterIndices_def l
    by (simp add: upt_rec indexOuterStep_eq l s numeral_2_eq_2)
qed

theorem C10_clusters_partition_witness:
  "clusterIndices exampleVectors (1 / 4) = [[0, 2], [1]]
   \<and> clusterBySimilarity exampleVectors (1 / 4)
       = [[exampleVectors ! 0, exampleVectors ! 2], [exampleVectors ! 1]]
   \<and> mset (concat (clusterBySimilarity exampleVectors (1 / 4))) = mset exampleVectors
   \<and> list_all (seededCluster exampleVectors (1 / 4)) [[0, 2], [1]]"
proof -
  note t = C10_clusters_partition [of exampleVectors "1 / 4", unfolded exampleVectors_indices]
  from t have a: "clusterBySimilarity exampleVectors (1 / 4)
       = [[exampleVectors ! 0, exampleVectors ! 2], [exampleVectors ! 1]]"
    by simp
  from t have b: "mset (concat (clusterBySimilarity exampleVectors (1 / 4))) = mset exampleVectors"
    by blast
  from t have c: "list_all (seededCluster exampleVectors (1 / 4)) [[0, 2], [1]]"
    by blast
  from a b c exampleVectors_indices show ?thesis by blast
qed

section \<open>Topics\<close>

lemma length_sliceFrom0: "0 \<le> n \<Longrightarrow> int (length (sliceFrom0 xs n)) \<le> n"
  by (simp add: sliceFrom0_def)

lemma set_sliceFrom0: "set (sliceFrom0 xs n) \<subseteq> set xs"
  by (auto simp: sliceFrom0_def dest: in_set_takeD)

lemma dvItem_createTFIDFVectors: "map dvItem (createTFIDFVectors items) = items"
  by (simp add: createTFIDFVectors_def Let_def map_nth comp_def)

lemma clusterBySimilarity_members:
  assumes "c \<in> set (clusterBySimilarity vs th)"
  shows "set c \<subseteq> set vs"
proof -
  have "set c \<subseteq> set (concat (clusterBySimilarity vs th))"
    using assms by auto
  also have "\<dots> = set_mset (mset (concat (clusterBySimilarity vs th)))" by simp
  also have "\<dots> = set vs" unfolding clusterBySimilarity_mset by simp
  finally show ?thesis .
qed

lemma selectClusters_members:
  assumes "c \<in> set (selectClusters now uniqueItems maxTopics minClusterSize)"
  shows "clVectors c \<in> set (clusterBySimilarity (createTFIDFVectors uniqueItems)
                                (cfgSimilarityThreshold CLUSTERING_CONFIG))"
    and "clItems c = map dvItem (clVectors c)"
    and "minClusterSize \<le> int (length (clItems c))"
    and "set (clItems c) \<subseteq> set uniqueItems"
proof -
  define raw where "raw = clusterBySimilarity (createTFIDFVectors uniqueItems)
                            (cfgSimilarityThreshold CLUSTERING_CONFIG)"
  have sel: "selectClusters now uniqueItems maxTopics minClusterSize
        = sliceFrom0 (sort_key (\<lambda>c. - clWeight c)
              (map (buildCluster now) (filter (\<lambda>c. int (length c) \<ge> minClusterSize) raw))) maxTopics"
    by (simp only: selectClusters_def Let_def raw_def)
  have "c \<in> set (sort_key (\<lambda>c. - clWeight c)
              (map (buildCluster now) (filter (\<lambda>c. int (length c) \<ge> minClusterSize) raw)))"
    using assms set_sliceFrom0 unfolding sel by (rule subsetD [rotated])
  then have "c \<in> buildCluster now ` {r \<in> set raw. minClusterSize \<le> int (length r)}"
    by (simp only: set_sort set_map set_filter)
  then obtain r where r: "r \<in> set raw" "minClusterSize \<le> int (length r)" "c = buildCluster now r"
    by blast
  have c: "clVectors c = r" "clItems c = map dvItem r"
    by (simp_all only: r(3) buildCluster_def Let_def ClusterInfo.simps)
  show "clVectors c \<in> set (clusterBySimilarity (createTFIDFVectors uniqueItems)
                                (cfgSimilarityThreshold CLUSTERING_CONFIG))"
    using r(1) unfolding c raw_def .
  show "clItems c = map dvItem (clVectors c)"
    unfolding c ..
  show "minClusterSize \<le> int (length (clItems c))"
    using r(2) unfolding c by simp
  have "set r \<subseteq> set (createTFIDFVectors uniqueItems)"
    using r(1) unfolding raw_def by (rule clusterBySimilarity_members)
  then have "dvItem ` set r \<subseteq> set (map dvItem (createTFIDFVectors uniqueItems))"
    by auto
  then show "set (clItems c) \<subseteq> set uniqueItems"
    unfolding c dvItem_createTFIDFVectors by simp
qed

lemma clusterIntoTopics_eq:
  "clusterIntoTopics h now items maxTopics minClusterSize
   = map (buildTopic h)
       (selectClusters now (filter (\<lambda>item. \<not> isDuplicate item) items) maxTopics minClusterSize)"
proof (cases "filter (\<lambda>item. \<not> isDuplicate item) items = []")
  case True
  have "createTFIDFVectors [] = []" by (simp add: createTFIDFVectors_def)
  then have "selectClusters now [] maxTopics minClusterSize = []"
    by (simp add: selectClusters_def clusterBySimilarity_def sliceFrom0_def)
  with True show ?thesis by (simp add: clusterIntoTopics_def)
next
  case False
  then show ?thesis by (simp add: clusterIntoTopics_def Let_def)
qed

lemma clusterIntoTopics_length:
  "0 \<le> maxTopics \<Longrightarrow>
   int (length (clusterIntoTopics h now items maxTopics minClusterSize)) \<le> maxTopics"
  unfolding clusterIntoTopics_eq
  by (simp add: selectClusters_def Let_def length_sliceFrom0)

lemma clusterIntoTopics_all_duplicates:
  "list_all isDuplicate items \<Longrightarrow> clusterIntoTopics h now items maxTopics minClusterSize = []"
proof -
  assume "list_all isDuplicate items"
  then have "filter (\<lambda>item. \<not> isDuplicate item) items = []"
    by (simp add: list_all_iff filter_empty_conv)
  then show ?thesis by (simp add: clusterIntoTopics_def)
qed

text \<open>
  C7: \<open>clusterIntoTopics\<close> returns no topic for an empty item list and for a list in
  which every item has \<open>duplicateOf\<close> set (to a non-empty string, the identifier of its
  representative); for a maximum \<open>maxTopics\<close> that is a count
  (not negative) the result has at most \<open>maxTopics\<close> topics, at most 12 with the default;
  and the topics are built, one each, from the selected clusters, every one of which is a
  cluster of \<open>clusterBySimilarity\<close> over the non-duplicate items with at least
  \<open>minClusterSize\<close> member items.
\<close>

theorem C7_cluster_topics:
  "clusterIntoTopics h now [] maxTopics minClusterSize = []
   \<and> (list_all isDuplicate items \<longrightarrow> clusterIntoTopics h now items maxTopics minClusterSize = [])
   \<and> (0 \<le> maxTopics \<longrightarrow>
        int (length (clusterIntoTopics h now items maxTopics minClusterSize)) \<le> maxTopics)
   \<and> length (clusterIntoTopics h now items (cfgMaxTopics CLUSTERING_CONFIG) minClusterSize) \<le> 12
   \<and> clusterIntoTopics h now items maxTopics minClusterSize
       = map (buildTopic h)
           (selectClusters now (filter (\<lambda>item. \<not> isDuplicate item) items) maxTopics minClusterSize)
   \<and> list_all
        (\<lambda>c. clVectors c \<in> set (clusterBySimilarity
                                   (createTFIDFVectors (filter (\<lambda>item. \<not> isDuplicate item) items))
                                   (cfgSimilarityThreshold CLUSTERING_CONFIG))
             \<and> clItems c = map dvItem (clVectors c)
             \<and> minClusterSize \<le> int (length (clItems c))
             \<and> set (clItems c) \<subseteq> set (filter (\<lambda>item. \<not> isDuplicate item) items))
        (selectClusters now (filter (\<lambda>item. \<not> isDuplicate item) items) maxTopics minClusterSize)"
proof -
  have "int (length (clusterIntoTopics h now items (cfgMaxTopics CLUSTERING_CONFIG) minClusterSize)) \<le> 12"
    using clusterIntoTopics_length [of "cfgMaxTopics CLUSTERING_CONFIG" h now items minClusterSize]
    by (simp add: CLUSTERING_CONFIG_def)
  then have d: "length (clusterIntoTopics h now items (cfgMaxTopics CLUSTERING_CONFIG) minClusterSize) \<le> 12"
    by simp
  have e: "clusterIntoTopics h now [] maxTopics minClusterSize = []"
    by (simp add: clusterIntoTopics_def)
  have f: "list_all
        (\<lambda>c. clVectors c \<in> set (clusterBySimilarity
                                   (createTFIDFVectors (filter (\<lambda>item. \<not> isDuplicate item) items))
                                   (cfgSimilarityThreshold CLUSTERING_CONFIG))
             \<and> clItems c = map dvItem (clVectors c)
             \<and> minClusterSize \<le> int (length (clItems c))
             \<and> set (clItems c) \<subseteq> set (filter (\<lambda>item. \<not> isDuplicate item) items))
        (selectClusters now (filter (\<lambda>item. \<not> isDuplicate item) items) maxTopics minClusterSize)"
    unfolding list_all_iff
  proof (intro ballI conjI)
    fix c
    assume c: "c \<in> set (selectClusters now (filter (\<lambda>item. \<not> isDuplicate item) items) maxTopics minClusterSize)"
    show "clVectors c \<in> set (clusterBySimilarity
                                   (createTFIDFVectors (filter (\<lambda>item. \<not> isDuplicate item) items))
                                   (cfgSimilarityThreshold CLUSTERING_CONFIG))"
      by (rule selectClusters_members(1) [OF c])
    show "clItems c = map dvItem (clVectors c)"
      by (rule selectClusters_members(2) [OF c])
    show "minClusterSize \<le> int (length (clItems c))"
      by (rule selectClusters_members(3) [OF c])
    show "set (clItems c) \<subseteq> set (filter (\<lambda>item. \<not> isDuplicate item) items)"
      by (rule selectClusters_members(4) [OF c])
  qed
  show ?thesis
    using e clusterIntoTopics_all_duplicates [of items h now maxTopics minClusterSize]
      clusterIntoTopics_length [of maxTopics h now items minClusterSize] d
      clusterIntoTopics_eq [of h now items maxTopics minClusterSize] f
    by (intro conjI impI) assumption+
qed

theorem C7_cluster_topics_witness:
  "list_all isDuplicate [duplicateItem, duplicateItem]
   \<and> clusterIntoTopics (\<lambda>s. s) 0 [duplicateItem, duplicateItem] 12 2 = []
   \<and> (0::int) \<le> 1
   \<and> int (length (clusterIntoTopics (\<lambda>s. s) 0 [angryItem, angryItem, weatherItem, weatherItem] 1 2)) \<le> 1
   \<and> list_all (\<lambda>c. 2 \<le> int (length (clItems c)))
        (selectClusters 0 (filter (\<lambda>item. \<not> isDuplicate item) [angryItem, angryItem, weatherItem, weatherItem]) 1 2)"
proof -
  have d: "list_all isDuplicate [duplicateItem, duplicateItem]"
    by (simp add: duplicateItem_def isDuplicate_def)
  note a = C7_cluster_topics [of "\<lambda>s. s" 0 12 2 "[duplicateItem, duplicateItem]"]
  note b = C7_cluster_topics [of "\<lambda>s. s" 0 1 2 "[angryItem, angryItem, weatherItem, weatherItem]"]
  have 1: "clusterIntoTopics (\<lambda>s. s) 0 [duplicateItem, duplicateItem] 12 2 = []"
    using a [THEN conjunct2, THEN conjunct1] d by (rule mp)
  have z: "(0::int) \<le> 1" by simp
  have 2: "int (length (clusterIntoTopics (\<lambda>s. s) 0 [angryItem, angryItem, weatherItem, weatherItem] 1 2)) \<le> 1"
    using b [THEN conjunct2, THEN conjunct2, THEN conjunct1] z by (rule mp)
  note b5 = b [THEN conjunct2, THEN conjunct2, THEN conjunct2, THEN conjunct2, THEN conjunct2]
  have 3: "list_all (\<lambda>c. 2 \<le> int (length (clItems c)))
        (selectClusters 0 (filter (\<lambda>item. \<not> isDuplicate item) [angryItem, angryItem, weatherItem, weatherItem]) 1 2)"
    using b5 unfolding list_all_iff by blast
  show ?thesis using d 1 z 2 3 by (intro conjI) assumption+
qed

text \<open>
  The keyword list of a topic built by \<open>clusterIntoTopics\<close> has no repeated keyword: the
  keywords are keys of one object.
\<close>

lemma distinct_map_sort_key:
  "distinct (map f (sort_key h xs)) \<longleftrightarrow> distinct (map f xs)"
  by (simp add: distinct_map)

lemma objectEntries_distinct:
  assumes "distinct (map fst obj)"
  shows "distinct (map fst (objectEntries obj))"
proof -
  have "distinct (map fst (filter (\<lambda>e. isArrayIndex (fst e)) obj))"
    "distinct (map fst (filter (\<lambda>e. \<not> isArrayIndex (fst e)) obj))"
    using assms by (simp_all add: distinct_map_filter)
  moreover have "fst ` {e \<in> set obj. isArrayIndex (fst e)} \<inter> fst ` {e \<in> set obj. \<not> isArrayIndex (fst e)} = {}"
    by auto
  ultimately show ?thesis
    by (simp add: objectEntries_def distinct_map_sort_key)
qed

lemma termScores_inner_distinct:
  "distinct (map fst scores) \<Longrightarrow>
   distinct (map fst (fold (\<lambda>i scores.
                            (let term' = dvTerms doc ! i; score = dvVector doc ! i
                             in AList.update term' (lookupOr0 scores term' + score) scores))
                      is scores))"
  by (induction "is" arbitrary: scores) (simp_all add: Let_def distinct_update)

lemma termScores_distinct:
  "distinct (map fst scores) \<Longrightarrow>
   distinct (map fst (fold (\<lambda>doc scores.
                    fold (\<lambda>i scores.
                            (let term' = dvTerms doc ! i; score = dvVector doc ! i
                             in AList.update term' (lookupOr0 scores term' + score) scores))
                      [0..<length (dvTerms doc)] scores)
              vectors scores))"
proof (induction vectors arbitrary: scores)
  case Nil
  then show ?case by simp
next
  case (Cons v vectors)
  have d: "distinct (map fst (fold (\<lambda>i scores.
                            (let term' = dvTerms v ! i; score = dvVector v ! i
                             in AList.update term' (lookupOr0 scores term' + score) scores))
                      [0..<length (dvTerms v)] scores))"
    using Cons.prems by (rule termScores_inner_distinct)
  show ?case
    unfolding fold.simps comp_apply by (rule Cons.IH [OF d])
qed

lemma getTopKeywords_distinct: "distinct (getTopKeywords vectors n)"
proof -
  define ts where "ts = fold (\<lambda>doc scores.
                    fold (\<lambda>i scores.
                            (let term' = dvTerms doc ! i; score = dvVector doc ! i
                             in AList.update term' (lookupOr0 scores term' + score) scores))
                      [0..<length (dvTerms doc)] scores)
              vectors []"
  have "distinct (map fst ts)"
    unfolding ts_def by (rule termScores_distinct) simp
  then have "distinct (map fst (sort_key (\<lambda>e. - snd e) (objectEntries ts)))"
    by (simp add: distinct_map_sort_key objectEntries_distinct)
  then have "distinct (map fst (take n (sort_key (\<lambda>e. - snd e) (objectEntries ts))))"
    by (simp add: take_map [symmetric] distinct_take)
  then show ?thesis
    by (simp add: getTopKeywords_def ts_def Let_def)
qed

lemma clusterIntoTopics_keywords_distinct:
  "t \<in> set (clusterIntoTopics h now items maxTopics minClusterSize) \<Longrightarrow> distinct (topicKeywords t)"
proof -
  assume "t \<in> set (clusterIntoTopics h now items maxTopics minClusterSize)"
  then obtain c where "c \<in> set (selectClusters now (filter (\<lambda>item. \<not> isDuplicate item) items) maxTopics minClusterSize)"
    and t: "t = buildTopic h c"
    unfolding clusterIntoTopics_eq by auto
  then obtain r where "c = buildCluster now r"
    using set_sliceFrom0 [of "sort_key (\<lambda>c. - clWeight c)
              (map (buildCluster now) (filter (\<lambda>c. int (length c) \<ge> minClusterSize)
                 (clusterBySimilarity (createTFIDFVectors (filter (\<lambda>item. \<not> isDuplicate item) items)) (cfgSimilarityThreshold CLUSTERING_CONFIG))))" maxTopics]
    unfolding selectClusters_def Let_def by auto
  then show ?thesis
    by (simp add: t buildTopic_def buildCluster_def Let_def getTopKeywords_distinct)
qed

section \<open>Deduplication\<close>

lemma dedup_fold_kept:
  "fst (fold (dedupStep env th) xs st) = fst st @ kept env th st xs"
  by (induction xs arbitrary: st) (simp_all add: dedupStep_def)

lemma dedup_fold_on_kept:
  "fold (dedupStep env th) (kept env th st xs) st = fold (dedupStep env th) xs st"
proof (induction xs arbitrary: st)
  case Nil
  show ?case by simp
next
  case (Cons x xs)
  show ?case
  proof (cases "accepts env th st x")
    case True
    then show ?thesis using Cons.IH [of "dedupStep env th x st"] by simp
  next
    case False
    then show ?thesis using Cons.IH [of st] by (simp add: dedupStep_def)
  qed
qed

lemma set_kept: "set (kept env th st xs) \<subseteq> set xs"
proof (induction xs arbitrary: st)
  case Nil
  show ?case by simp
next
  case (Cons x xs)
  show ?case
    using Cons.IH [of st] Cons.IH [of "dedupStep env th x st"] by auto
qed

lemma sorted_kept:
  "sorted (map f xs) \<Longrightarrow> sorted (map f (kept env th st xs))"
proof (induction xs arbitrary: st)
  case Nil
  show ?case by simp
next
  case (Cons x xs)
  then have s: "sorted (map f xs)" and le: "\<forall>y\<in>set xs. f x \<le> f y"
    by simp_all
  have "\<forall>y\<in>set (kept env th st' xs). f x \<le> f y" for st'
    using le set_kept [of env th st' xs] by blast
  then show ?case using Cons.IH [OF s] by simp
qed

lemma deduplicateItems_kept:
  "deduplicateItems env items th = kept env th ([], {}) (sortByEngagement items)"
  by (simp add: deduplicateItems_def dedup_fold_kept)

lemma sortByEngagement_dedup:
  "sortByEngagement (deduplicateItems env items th) = deduplicateItems env items th"
  unfolding deduplicateItems_kept sortByEngagement_def
  by (rule sort_key_id_if_sorted, rule sorted_kept) simp

text \<open>
  C3: deduplication is idempotent: for every list of items and every threshold (and
  whatever the URL parser and the entity matcher of the platform compute),
  \<open>deduplicateItems\<close> applied to its own output returns that output, element for element
  in the same order.
\<close>

theorem C3_dedup_idempotent:
  "deduplicateItems env (deduplicateItems env items th) th = deduplicateItems env items th"
proof -
  have "deduplicateItems env (deduplicateItems env items th) th
        = fst (fold (dedupStep env th) (deduplicateItems env items th) ([], {}))"
    by (simp add: deduplicateItems_def [of env "deduplicateItems env items th"] sortByEngagement_dedup)
  also have "\<dots> = fst (fold (dedupStep env th) (kept env th ([], {}) (sortByEngagement items)) ([], {}))"
    by (simp only: deduplicateItems_kept)
  also have "\<dots> = fst (fold (dedupStep env th) (sortByEngagement items) ([], {}))"
    by (simp only: dedup_fold_on_kept)
  also have "\<dots> = deduplicateItems env items th"
    by (simp only: deduplicateItems_def)
  finally show ?thesis .
qed

section \<open>The substring heuristic of the similarity\<close>

lemma startsWith_iff: "startsWith s k \<longleftrightarrow> (\<exists>q. s = k @ q)"
  by (induction s k rule: startsWith.induct) auto

lemma includesStr_iff: "includesStr s k \<longleftrightarrow> (\<exists>p q. s = p @ k @ q)"
proof (induction s)
  case Nil
  show ?case by auto
next
  case (Cons c cs)
  show ?case
  proof
    assume "includesStr (c # cs) k"
    then consider "startsWith (c # cs) k" | "includesStr cs k" by auto
    then show "\<exists>p q. c # cs = p @ k @ q"
    proof cases
      case 1
      then obtain q where "c # cs = k @ q" by (auto simp: startsWith_iff)
      then have "c # cs = [] @ k @ q" by simp
      then show ?thesis by blast
    next
      case 2
      then obtain p q where "cs = p @ k @ q" using Cons.IH by blast
      then have "c # cs = (c # p) @ k @ q" by simp
      then show ?thesis by blast
    qed
  next
    assume "\<exists>p q. c # cs = p @ k @ q"
    then obtain p q where pq: "c # cs = p @ k @ q" by blast
    show "includesStr (c # cs) k"
    proof (cases p)
      case Nil
      with pq have "startsWith (c # cs) k" by (auto simp: startsWith_iff)
      then show ?thesis by simp
    next
      case (Cons d p')
      with pq have "cs = p' @ k @ q" by simp
      then have "includesStr cs k" using Cons.IH by blast
      then show ?thesis by simp
    qed
  qed
qed

lemma includesStr_take: "includesStr s k \<Longrightarrow> includesStr s (take n k)"
proof -
  assume "includesStr s k"
  then obtain p q where "s = p @ k @ q" by (auto simp: includesStr_iff)
  then have "s = p @ take n k @ (drop n k @ q)" by simp
  then show ?thesis unfolding includesStr_iff by blast
qed

lemma jaccardSimilarity_nonneg: "0 \<le> jaccardSimilarity a b"
  by (simp add: jaccardSimilarity_def Let_def)

lemma calculateSimilarity_substring:
  assumes "hasSubstringMatch a b"
  shows "calculateSimilarity env a b \<ge> 0.85"
    and "\<not> sameNormalizedUrl env a b \<Longrightarrow>
         calculateSimilarity env a b
         = max (jaccardSimilarity (tokenize (title a)) (tokenize (title b))) 0.85"
proof -
  have e: "calculateSimilarity env a b
           = max (jaccardSimilarity (tokenize (title a)) (tokenize (title b))) 0.85"
    if "\<not> sameNormalizedUrl env a b"
    using assms that by (simp add: calculateSimilarity_def Let_def)
  then show "\<not> sameNormalizedUrl env a b \<Longrightarrow>
         calculateSimilarity env a b
         = max (jaccardSimilarity (tokenize (title a)) (tokenize (title b))) 0.85" .
  show "calculateSimilarity env a b \<ge> 0.85"
  proof (cases "sameNormalizedUrl env a b")
    case True
    then show ?thesis by (simp add: calculateSimilarity_def)
  next
    case False
    show ?thesis unfolding e [OF False] by (rule max.cobounded2)
  qed
qed

lemma whole_title_substring:
  assumes "(length (toLowerCase (title a)) > 20
            \<and> includesStr (toLowerCase (title b)) (toLowerCase (title a)))
           \<or> (length (toLowerCase (title b)) > 20
               \<and> includesStr (toLowerCase (title a)) (toLowerCase (title b)))"
  shows "hasSubstringMatch a b"
  using assms includesStr_take unfolding hasSubstringMatch_def Let_def by blast

lemma shortTitleItem_length: "length (toLowerCase (title shortTitleItem)) = 20"
  by code_simp

lemma shortTitleItem_included:
  "includesStr (toLowerCase (title longTitleItem)) (toLowerCase (title shortTitleItem))"
  by code_simp

lemma shortTitleItem_urls:
  "normalizeUrl examplePlatform (url shortTitleItem)
   \<noteq> normalizeUrl examplePlatform (url longTitleItem)"
  by code_simp

lemma shortTitleItem_not_same_url: "\<not> sameNormalizedUrl examplePlatform shortTitleItem longTitleItem"
  by code_simp

lemma shortTitleItem_no_match: "\<not> hasSubstringMatch shortTitleItem longTitleItem"
  by code_simp

lemma shortTitleItem_tokens:
  "tokenize (title shortTitleItem) = [''storm'', ''warning'', ''issued'']"
  "tokenize (title longTitleItem)
   = [''storm'', ''warning'', ''issued'', ''for'', ''the'', ''northern'', ''coast'', ''today'', ''and'',
      ''tomorrow'', ''morning'']"
  by code_simp+

lemma shortTitleItem_jaccard:
  "jaccardSimilarity (tokenize (title shortTitleItem)) (tokenize (title longTitleItem)) = 3 / 11"
  unfolding shortTitleItem_tokens by (simp add: jaccardSimilarity_def toSet_def)

lemma shortTitleItem_similarity:
  "calculateSimilarity examplePlatform shortTitleItem longTitleItem = 3 / 11"
  by (simp add: calculateSimilarity_def shortTitleItem_not_same_url shortTitleItem_no_match
        shortTitleItem_jaccard)

text \<open>
  C8 as stated fails for a title of exactly 20 characters: "storm warning issued" is
  contained in the longer title, the normalized URLs differ, and the similarity is the
  plain title Jaccard value 3/11, below 0.85. The code asks for more than 20 characters.
\<close>

theorem C8_twenty_characters_counterexample:
  "length (toLowerCase (title shortTitleItem)) = 20
   \<and> includesStr (toLowerCase (title longTitleItem)) (toLowerCase (title shortTitleItem))
   \<and> normalizeUrl examplePlatform (url shortTitleItem)
       \<noteq> normalizeUrl examplePlatform (url longTitleItem)
   \<and> calculateSimilarity examplePlatform shortTitleItem longTitleItem = 3 / 11
   \<and> \<not> (0.85 \<le> calculateSimilarity examplePlatform shortTitleItem longTitleItem)"
proof -
  have "\<not> (0.85 \<le> calculateSimilarity examplePlatform shortTitleItem longTitleItem)"
    unfolding shortTitleItem_similarity by simp
  then show ?thesis
    using shortTitleItem_length shortTitleItem_included shortTitleItem_urls
      shortTitleItem_similarity
    by (intro conjI) assumption+
qed

text \<open>
  C8, amended: for every pair of items, if one item's lower-cased title has more than 20
  characters and is contained in the other's lower-cased title (it is enough that its first
  30 characters are), then \<open>calculateSimilarity\<close> returns at least 0.85; when the
  normalized URLs differ the result is the title Jaccard value floored at 0.85.
\<close>

theorem C8_substring_floor:
  "((length (toLowerCase (title a)) > 20
       \<and> includesStr (toLowerCase (title b)) (toLowerCase (title a)))
      \<or> (length (toLowerCase (title b)) > 20
          \<and> includesStr (toLowerCase (title a)) (toLowerCase (title b)))
     \<longrightarrow> hasSubstringMatch a b)
   \<and> (hasSubstringMatch a b \<longrightarrow>
        calculateSimilarity env a b \<ge> 0.85
        \<and> (\<not> sameNormalizedUrl env a b \<longrightarrow>
             calculateSimilarity env a b
             = max (jaccardSimilarity (tokenize (title a)) (tokenize (title b))) 0.85))"
  using whole_title_substring [of a b] calculateSimilarity_substring [of a b env] by blast

lemma plainTitleItem_facts:
  "length (toLowerCase (title plainTitleItem)) = 28"
  "includesStr (toLowerCase (title sourceTitleItem)) (toLowerCase (title plainTitleItem))"
  "\<not> sameNormalizedUrl examplePlatform plainTitleItem sourceTitleItem"
  "tokenize (title plainTitleItem) = [''storm'', ''warning'', ''issued'', ''tonight'']"
  "tokenize (title sourceTitleItem)
   = [''storm'', ''warning'', ''issued'', ''tonight'', ''daily'', ''news'']"
  by code_simp+

theorem C8_substring_floor_witness:
  "length (toLowerCase (title plainTitleItem)) > 20
   \<and> includesStr (toLowerCase (title sourceTitleItem)) (toLowerCase (title plainTitleItem))
   \<and> hasSubstringMatch plainTitleItem sourceTitleItem
   \<and> \<not> sameNormalizedUrl examplePlatform plainTitleItem sourceTitleItem
   \<and> calculateSimilarity examplePlatform plainTitleItem sourceTitleItem = 0.85"
proof -
  have l: "length (toLowerCase (title plainTitleItem)) > 20"
    unfolding plainTitleItem_facts(1) by simp
  note t = C8_substring_floor [of plainTitleItem sourceTitleItem examplePlatform]
  have h: "hasSubstringMatch plainTitleItem sourceTitleItem"
    using t l plainTitleItem_facts(2) by blast
  have "calculateSimilarity examplePlatform plainTitleItem sourceTitleItem
        = max (jaccardSimilarity (tokenize (title plainTitleItem)) (tokenize (title sourceTitleItem))) 0.85"
    using t h plainTitleItem_facts(3) by blast
  also have "\<dots> = 0.85"
    unfolding plainTitleItem_facts(4,5) by (simp add: jaccardSimilarity_def toSet_def)
  finally show ?thesis
    using l h plainTitleItem_facts(2,3) by (intro conjI) assumption+
qed

section \<open>Topic delta\<close>

lemma topicDeltaStep_max:
  "topicDeltaStep topic yt b = max b (topicDeltaStep topic yt 0)"
  by (simp add: topicDeltaStep_def Let_def)

lemma topicDeltaStep_nonneg: "0 \<le> topicDeltaStep topic yt 0"
  by (simp add: topicDeltaStep_def Let_def)

lemma topicDelta_fold:
  "fold (topicDeltaStep topic) ys b
   = Max (insert b ((\<lambda>yt. topicDeltaStep topic yt 0) ` set ys))"
proof (induction ys arbitrary: b)
  case Nil
  show ?case by simp
next
  case (Cons y ys)
  let ?S = "(\<lambda>yt. topicDeltaStep topic yt 0) ` set ys"
  have "fold (topicDeltaStep topic) (y # ys) b
        = Max (insert (max b (topicDeltaStep topic y 0)) ?S)"
    using Cons.IH [of "topicDeltaStep topic y b"] topicDeltaStep_max [of topic y b] by simp
  also have "\<dots> = Max (insert b (insert (topicDeltaStep topic y 0) ?S))"
  proof (cases "?S = {}")
    case True
    then show ?thesis by simp
  next
    case False
    then show ?thesis by (simp add: max.assoc)
  qed
  finally show ?case by simp
qed

lemma overlap_distinct:
  assumes "distinct tk"
  shows "length (filter (\<lambda>k. k \<in> set yk) tk) = card (set tk \<inter> set yk)"
proof -
  have "set (filter (\<lambda>k. k \<in> set yk) tk) = set tk \<inter> set yk" by auto
  moreover have "distinct (filter (\<lambda>k. k \<in> set yk) tk)" using assms by simp
  ultimately show ?thesis by (metis distinct_card)
qed

lemma topicDeltaStep_spec:
  assumes "distinct (topicKeywords topic)"
  shows "topicDeltaStep topic yt 0 = overlap_spec (topicKeywords topic) (snapshotKeywords yt)"
  using overlap_distinct [OF assms, of "snapshotKeywords yt"]
  by (simp add: topicDeltaStep_def overlap_spec_def Let_def)

lemma calculateTopicDelta_spec:
  assumes "distinct (topicKeywords topic)"
  shows "calculateTopicDelta topic snap = topicDelta_spec topic snap"
proof (cases snap)
  case None
  then show ?thesis by (simp add: calculateTopicDelta_def topicDelta_spec_def)
next
  case (Some y)
  have "fold (topicDeltaStep topic) (topTopics y) 0 = bestMatch_spec topic y"
    unfolding topicDelta_fold bestMatch_spec_def
    by (simp add: topicDeltaStep_spec [OF assms])
  with Some show ?thesis by (simp add: calculateTopicDelta_def topicDelta_spec_def)
qed

lemma calculateTopicDelta_no_overlap:
  assumes "list_all (\<lambda>yt. set (topicKeywords topic) \<inter> set (snapshotKeywords yt) = {}) (topTopics y)"
  shows "calculateTopicDelta topic (Some y) = 1"
proof -
  have z: "topicDeltaStep topic yt 0 = 0" if "yt \<in> set (topTopics y)" for yt
  proof -
    from assms that have "set (topicKeywords topic) \<inter> set (snapshotKeywords yt) = {}"
      by (simp add: list_all_iff)
    then have "filter (\<lambda>k. k \<in> set (snapshotKeywords yt)) (topicKeywords topic) = []"
      by (auto simp: filter_empty_conv)
    then show ?thesis by (simp add: topicDeltaStep_def Let_def)
  qed
  have "insert 0 ((\<lambda>yt. topicDeltaStep topic yt 0) ` set (topTopics y)) = {0}"
    using z by auto
  then have "Max (insert 0 ((\<lambda>yt. topicDeltaStep topic yt 0) ` set (topTopics y))) = Max {0}"
    by (rule arg_cong)
  then have "fold (topicDeltaStep topic) (topTopics y) 0 = 0"
    unfolding topicDelta_fold by (simp only: Max_singleton)
  then show ?thesis by (simp add: calculateTopicDelta_def)
qed

lemma clusterIntoTopics_delta_spec:
  "list_all (\<lambda>t. calculateTopicDelta t snap = topicDelta_spec t snap)
     (clusterIntoTopics h now items maxTopics minClusterSize)"
  unfolding list_all_iff
  by (intro ballI calculateTopicDelta_spec clusterIntoTopics_keywords_distinct)

text \<open>
  The keyword list of a topic has no repeated keyword (\<open>clusterIntoTopics_keywords_distinct\<close>),
  and the overlap relies on it: the source counts the keywords of the topic that occur in
  yesterday's list, and for a list that repeated a keyword this count would exceed the
  size of the intersection.
\<close>

lemma repeated_keyword_counted_twice:
  "calculateTopicDelta (topicWithKeywords repeatedKeywords) (Some exampleSnapshot) = 0
   \<and> topicDelta_spec (topicWithKeywords repeatedKeywords) (Some exampleSnapshot) = 1"
proof
  show "calculateTopicDelta (topicWithKeywords repeatedKeywords) (Some exampleSnapshot) = 0"
    by (simp add: calculateTopicDelta_def topicDeltaStep_def topicWithKeywords_def
        repeatedKeywords_def exampleSnapshot_def snapshotWithTopics_def Let_def)
  show "topicDelta_spec (topicWithKeywords repeatedKeywords) (Some exampleSnapshot) = 1"
    by (simp add: topicDelta_spec_def bestMatch_spec_def overlap_spec_def topicWithKeywords_def
        repeatedKeywords_def exampleSnapshot_def snapshotWithTopics_def Let_def)
qed

text \<open>
  C6: \<open>calculateTopicDelta\<close> returns 0 when the prior-day snapshot is null. Otherwise, for
  every topic of \<open>clusterIntoTopics\<close> (and for every topic whose keyword list has no
  repeated keyword) it computes, for each of yesterday's topics, the size of the keyword
  intersection over the larger number of keywords (0 when both lists are empty), takes the
  maximum over yesterday's topics (0 when there are none), and returns 1 exactly when that
  best match is below 0.3 and 0 otherwise. A topic that shares no keyword with any
  prior-day topic gets 1.
\<close>

theorem C6_topic_delta:
  "calculateTopicDelta topic None = 0
   \<and> list_all (\<lambda>t. calculateTopicDelta t snap = topicDelta_spec t snap)
        (clusterIntoTopics h now items maxTopics minClusterSize)
   \<and> (distinct (topicKeywords topic) \<longrightarrow>
        calculateTopicDelta topic snap = topicDelta_spec topic snap)
   \<and> (list_all (\<lambda>yt. set (topicKeywords topic) \<inter> set (snapshotKeywords yt) = {}) (topTopics y)
        \<longrightarrow> calculateTopicDelta topic (Some y) = 1)"
proof -
  have "calculateTopicDelta topic None = 0"
    by (simp add: calculateTopicDelta_def)
  then show ?thesis
    using calculateTopicDelta_spec [of topic snap] calculateTopicDelta_no_overlap [of topic y]
      clusterIntoTopics_delta_spec [of snap h now items maxTopics minClusterSize]
    by (intro conjI impI) assumption+
qed

theorem C6_topic_delta_witness:
  "distinct (topicKeywords (topicWithKeywords rocketKeywords))
   \<and> calculateTopicDelta (topicWithKeywords rocketKeywords) (Some exampleSnapshot)
       = topicDelta_spec (topicWithKeywords rocketKeywords) (Some exampleSnapshot)
   \<and> topicDelta_spec (topicWithKeywords rocketKeywords) (Some exampleSnapshot) = 0
   \<and> list_all (\<lambda>yt. set (topicKeywords (topicWithKeywords [''election'', ''vote'']))
                      \<inter> set (snapshotKeywords yt) = {}) (topTopics exampleSnapshot)
   \<and> calculateTopicDelta (topicWithKeywords [''election'', ''vote'']) (Some exampleSnapshot) = 1"
proof -
  have d: "distinct (topicKeywords (topicWithKeywords rocketKeywords))"
    by (simp add: topicWithKeywords_def rocketKeywords_def)
  have n: "list_all (\<lambda>yt. set (topicKeywords (topicWithKeywords [''election'', ''vote'']))
                      \<inter> set (snapshotKeywords yt) = {}) (topTopics exampleSnapshot)"
    by (simp add: topicWithKeywords_def exampleSnapshot_def snapshotWithTopics_def)
  have c: "calculateTopicDelta (topicWithKeywords rocketKeywords) (Some exampleSnapshot) = 0"
    by (simp add: calculateTopicDelta_def topicDeltaStep_def topicWithKeywords_def
          rocketKeywords_def exampleSnapshot_def snapshotWithTopics_def Let_def)
  note t = C6_topic_delta [of "topicWithKeywords rocketKeywords" "Some exampleSnapshot"]
  note u = C6_topic_delta [of "topicWithKeywords [''election'', ''vote'']" _ _ _ _ _ _ exampleSnapshot]
  have e: "calculateTopicDelta (topicWithKeywords rocketKeywords) (Some exampleSnapshot)
        = topicDelta_spec (topicWithKeywords rocketKeywords) (Some exampleSnapshot)"
    using t [THEN conjunct2, THEN conjunct2, THEN conjunct1] d by (rule mp)
  have s: "topicDelta_spec (topicWithKeywords rocketKeywords) (Some exampleSnapshot) = 0"
    using e c by simp
  have o: "calculateTopicDelta (topicWithKeywords [''election'', ''vote'']) (Some exampleSnapshot) = 1"
    using u [THEN conjunct2, THEN conjunct2, THEN conjunct2] n by (rule mp)
  show ?thesis using d e s n o by (intro conjI) assumption+
qed

end
